theory Spec2Isabelle
  imports Complex_Main
begin

section \<open>JavaScript numbers\<close>

text \<open>
  A JavaScript number is modelled as an exact real, or one of the three special values
  \<open>NaN\<close>, \<open>Infinity\<close> and \<open>-Infinity\<close>. The special values are kept because the
  program's control flow depends on them: every comparison with \<open>NaN\<close> is false,
  \<open>x || 50\<close> replaces \<open>NaN\<close> and \<open>0\<close>, \<open>isNaN\<close> is tested explicitly, and a
  division by zero yields an infinity. The rounding of IEEE doubles and the sign of
  zero are not modelled: finite arithmetic is exact, and a zero divisor counts as \<open>+0\<close>.
\<close>

datatype jsnum = NaN | PInf | NInf | Num real

definition inf_of_sign :: "real \<Rightarrow> jsnum" where
  "inf_of_sign s = (if 0 < s then PInf else if s < 0 then NInf else NaN)"

fun sign_of :: "jsnum \<Rightarrow> real" where
  "sign_of NaN = 0"
| "sign_of PInf = 1"
| "sign_of NInf = - 1"
| "sign_of (Num a) = sgn a"

fun isNaN :: "jsnum \<Rightarrow> bool" where
  "isNaN NaN = True"
| "isNaN PInf = False"
| "isNaN NInf = False"
| "isNaN (Num a) = False"

fun jsneg :: "jsnum \<Rightarrow> jsnum" where
  "jsneg NaN = NaN"
| "jsneg PInf = NInf"
| "jsneg NInf = PInf"
| "jsneg (Num a) = Num (- a)"

fun jsadd :: "jsnum \<Rightarrow> jsnum \<Rightarrow> jsnum" where
  "jsadd (Num a) (Num b) = Num (a + b)"
| "jsadd NaN y = NaN"
| "jsadd x NaN = NaN"
| "jsadd PInf NInf = NaN"
| "jsadd NInf PInf = NaN"
| "jsadd PInf y = PInf"
| "jsadd NInf y = NInf"
| "jsadd (Num a) y = y"

definition jssub :: "jsnum \<Rightarrow> jsnum \<Rightarrow> jsnum" where
  "jssub x y = jsadd x (jsneg y)"

fun jsmul :: "jsnum \<Rightarrow> jsnum \<Rightarrow> jsnum" where
  "jsmul (Num a) (Num b) = Num (a * b)"
| "jsmul NaN y = NaN"
| "jsmul x NaN = NaN"
| "jsmul x y = inf_of_sign (sign_of x * sign_of y)"

fun jsdiv :: "jsnum \<Rightarrow> jsnum \<Rightarrow> jsnum" where
  "jsdiv (Num a) (Num b) = (if b = 0 then inf_of_sign (sgn a) else Num (a / b))"
| "jsdiv NaN y = NaN"
| "jsdiv x NaN = NaN"
| "jsdiv (Num a) y = Num 0"
| "jsdiv x (Num b) = inf_of_sign (sign_of x * (if b < 0 then - 1 else 1))"
| "jsdiv x y = NaN"

text \<open>The comparison \<open>x < y\<close>: false as soon as one side is \<open>NaN\<close>.\<close>

fun jslt :: "jsnum \<Rightarrow> jsnum \<Rightarrow> bool" where
  "jslt (Num a) (Num b) = (a < b)"
| "jslt NaN y = False"
| "jslt x NaN = False"
| "jslt NInf NInf = False"
| "jslt NInf y = True"
| "jslt x PInf = (case x of PInf \<Rightarrow> False | _ \<Rightarrow> True)"
| "jslt x y = False"

definition jsgt :: "jsnum \<Rightarrow> jsnum \<Rightarrow> bool" where
  "jsgt x y = jslt y x"

text \<open>Strict equality \<open>x === y\<close> on numbers: \<open>NaN\<close> equals nothing.\<close>

definition jseq :: "jsnum \<Rightarrow> jsnum \<Rightarrow> bool" where
  "jseq x y = (if isNaN x then False else x = y)"

definition jsle :: "jsnum \<Rightarrow> jsnum \<Rightarrow> bool" where
  "jsle x y = (if jslt x y then True else jseq x y)"

definition jsge :: "jsnum \<Rightarrow> jsnum \<Rightarrow> bool" where
  "jsge x y = jsle y x"

text \<open>\<open>Math.min\<close>, \<open>Math.floor\<close> and the truthiness test behind \<open>x || d\<close>.\<close>

definition Math_min :: "jsnum \<Rightarrow> jsnum \<Rightarrow> jsnum" where
  "Math_min x y = (if isNaN x then NaN else if isNaN y then NaN else if jslt y x then y else x)"

fun Math_floor :: "jsnum \<Rightarrow> jsnum" where
  "Math_floor (Num a) = Num (of_int \<lfloor>a\<rfloor>)"
| "Math_floor x = x"

fun falsy :: "jsnum \<Rightarrow> bool" where
  "falsy NaN = True"
| "falsy (Num a) = (a = 0)"
| "falsy x = False"

definition or_default :: "jsnum \<Rightarrow> jsnum \<Rightarrow> jsnum" where
  "or_default x d = (if falsy x then d else x)"

section \<open>parseFloat\<close>

text \<open>
  \<open>parseFloat\<close> skips leading white space, reads the longest prefix that is a decimal
  literal (sign, digits, fraction, exponent, or the word \<open>Infinity\<close>) and ignores the
  rest of the string; with no such prefix the result is \<open>NaN\<close>. A field that is
  absent or \<open>null\<close> in the parsed JSON is \<open>None\<close>: \<open>parseFloat\<close> turns it into the
  string \<open>undefined\<close> or \<open>null\<close>, hence into \<open>NaN\<close>. A JSON number is represented by
  its decimal string. Strings are byte strings; only ASCII white space is skipped.
\<close>

definition digit_tab :: "(char \<times> nat) list" where
  "digit_tab = [(CHR ''0'', 0), (CHR ''1'', 1), (CHR ''2'', 2), (CHR ''3'', 3), (CHR ''4'', 4),
                (CHR ''5'', 5), (CHR ''6'', 6), (CHR ''7'', 7), (CHR ''8'', 8), (CHR ''9'', 9)]"

definition is_digit :: "char \<Rightarrow> bool" where
  "is_digit c = (c \<in> set ''0123456789'')"

definition digit_val :: "char \<Rightarrow> nat" where
  "digit_val c = (case map_of digit_tab c of Some d \<Rightarrow> d | None \<Rightarrow> 0)"

definition digits_val :: "string \<Rightarrow> nat" where
  "digits_val ds = foldl (\<lambda>acc c. 10 * acc + digit_val c) 0 ds"

definition is_space :: "char \<Rightarrow> bool" where
  "is_space c = (c \<in> set [CHR '' '', CHR 0x09, CHR 0x0A, CHR 0x0B, CHR 0x0C, CHR 0x0D])"

text \<open>The optional sign of a literal: the sign as a factor, and the rest of the string.\<close>

fun read_sign :: "string \<Rightarrow> real \<times> string" where
  "read_sign (c # cs) =
     (if c = CHR ''-'' then (- 1, cs) else if c = CHR ''+'' then (1, cs) else (1, c # cs))"
| "read_sign [] = (1, [])"

text \<open>The optional fraction: the digits after a decimal point, and the rest.\<close>

fun read_fraction :: "string \<Rightarrow> string \<times> string" where
  "read_fraction (c # cs) =
     (if c = CHR ''.'' then (takeWhile is_digit cs, dropWhile is_digit cs) else ([], c # cs))"
| "read_fraction [] = ([], [])"

text \<open>
  The optional exponent part, as the factor it stands for: an \<open>e\<close> or \<open>E\<close>, an optional
  sign and at least one digit. Without a digit there is no exponent part.
\<close>

fun read_exponent :: "string \<Rightarrow> real" where
  "read_exponent (c # cs) =
     (if c = CHR ''e'' \<or> c = CHR ''E'' then
        (let (sg, ds) = read_sign cs; e = takeWhile is_digit ds
         in if e = [] then 1
            else if sg < 0 then 1 / 10 ^ digits_val e else 10 ^ digits_val e)
      else 1)"
| "read_exponent [] = 1"

definition parseFloat_str :: "string \<Rightarrow> jsnum" where
  "parseFloat_str s =
     (let (sg, body) = read_sign (dropWhile is_space s)
      in if take 8 body = ''Infinity'' then (if sg < 0 then NInf else PInf)
         else
           (let ip = takeWhile is_digit body;
                (fp, rest) = read_fraction (dropWhile is_digit body)
            in if ip = [] \<and> fp = [] then NaN
               else Num (sg * (real (digits_val ip) + real (digits_val fp) / 10 ^ length fp)
                          * read_exponent rest)))"

definition parseFloat :: "string option \<Rightarrow> jsnum" where
  "parseFloat v = (case v of None \<Rightarrow> NaN | Some s \<Rightarrow> parseFloat_str s)"

section \<open>Strings derived from numbers, and upper-casing\<close>

text \<open>
  The program writes numbers into strings with \<open>toFixed(2)\<close> and \<open>toString()\<close>. Such a
  string is kept symbolically, as the number it was formatted from; \<open>Lit\<close> is a string
  literal of the source.
\<close>

datatype numstr = Lit string | ToFixed2 jsnum | ToString jsnum

text \<open>
  \<open>String.prototype.toUpperCase\<close>. A string is the UTF-8 of its text: a byte below 128
  is an ASCII character, and the other bytes come in runs that encode the characters
  outside ASCII. Of the ASCII characters the letters a to z are mapped to A to Z and all
  else is kept. The upper case of a character outside ASCII is given by the Unicode
  tables of the JavaScript engine, which are no part of the sources and may well be
  ASCII (the long s, U+017F, becomes S): the tables are the parameter \<open>U\<close>, which
  maps a run of such characters to its upper case.
\<close>

definition upper_tab :: "(char \<times> char) list" where
  "upper_tab = zip ''abcdefghijklmnopqrstuvwxyz'' ''ABCDEFGHIJKLMNOPQRSTUVWXYZ''"

definition upper_char :: "char \<Rightarrow> char" where
  "upper_char c = (case map_of upper_tab c of Some u \<Rightarrow> u | None \<Rightarrow> c)"

definition is_ascii :: "char \<Rightarrow> bool" where
  "is_ascii c = (\<not> digit7 c)"

definition non_ascii :: "char \<Rightarrow> bool" where
  "non_ascii c = digit7 c"

function toUpperCase :: "(string \<Rightarrow> string) \<Rightarrow> string \<Rightarrow> string" where
  "toUpperCase U [] = []"
| "toUpperCase U (c # cs) =
     (if is_ascii c then upper_char c # toUpperCase U cs
      else U (c # takeWhile non_ascii cs) @ toUpperCase U (dropWhile non_ascii cs))"
  by pat_completeness auto
termination
  by (relation "measure (\<lambda>(U, s). length s)")
     (auto simp add: length_dropWhile_le less_Suc_eq_le)

declare toUpperCase.simps [simp del]

section \<open>Constants and strategy stages\<close>

text \<open>
  \<open>CONTRACT_VAL_ETH\<close> and \<open>STRATEGY_STAGES\<close> of the constants file, in the version
  with the leverages 20, 10 and 5. Of a stage only the fields the sizing reads are
  kept: \<open>leverage\<close> and \<open>risk_factor\<close>. \<open>STAGE_3\<close> has no \<open>risk_factor\<close>
  property, in either version of the file: reading it gives \<open>undefined\<close>, which
  arithmetic turns into \<open>NaN\<close>.
\<close>

definition CONTRACT_VAL_ETH :: real where
  "CONTRACT_VAL_ETH = 0.1"

record StageParams =
  stage_leverage :: real
  stage_risk_factor :: "real option"

definition STAGE_1 :: StageParams where
  "STAGE_1 = \<lparr>stage_leverage = 20, stage_risk_factor = Some 0.8\<rparr>"

definition STAGE_2 :: StageParams where
  "STAGE_2 = \<lparr>stage_leverage = 10, stage_risk_factor = Some 0.5\<rparr>"

definition STAGE_3 :: StageParams where
  "STAGE_3 = \<lparr>stage_leverage = 5, stage_risk_factor = None\<rparr>"

definition currentStageParams :: "jsnum \<Rightarrow> StageParams" where
  "currentStageParams totalEquity =
     (if jslt totalEquity (Num 20) then STAGE_1
      else if jslt totalEquity (Num 80) then STAGE_2
      else STAGE_3)"

definition risk_factor :: "StageParams \<Rightarrow> jsnum" where
  "risk_factor st = (case stage_risk_factor st of None \<Rightarrow> NaN | Some r \<Rightarrow> Num r)"

section \<open>The decision returned by the reasoning service\<close>

text \<open>
  The parsed JSON reply, with the fields the program reads or returns unchanged: the
  trading decision, the reasoning, the stage analysis and the leverage the reply may
  carry at its top level. The top-level action and size of a reply are always
  overwritten, and no code of the sources reads its other fields. A field is \<open>None\<close>
  when it is absent or \<open>null\<close>; the action and the stage analysis are also \<open>None\<close>
  when they are not strings (calling \<open>toUpperCase\<close> or \<open>substring\<close> on them raises a
  TypeError). Any other value that is not a string is represented by the string that
  \<open>parseFloat\<close> and \<open>toString\<close> turn it into.
\<close>

record trading_decision =
  td_action :: "string option"
  td_confidence :: "string option"
  td_leverage :: "string option"
  td_profit_target :: "string option"
  td_stop_loss :: "string option"

record RawDecision =
  raw_trading_decision :: "trading_decision option"
  raw_reasoning :: "string option"
  raw_stage_analysis :: "string option"
  raw_leverage :: "string option"

text \<open>
  What can go wrong between the request and the validated decision: the request fails,
  the reply is empty, the reply is not JSON, or the post-processing raises a TypeError.
  All four are caught by \<open>getTradingDecision\<close> and turned into the fallback decision.
\<close>

datatype failure = RequestFailed | EmptyReply | FormatError | TypeError

text \<open>
  The two notes the post-processing appends to \<open>decision.reasoning\<close>:
  \<open>ValueTooSmall v\<close> is the note of line 294, which says that the position value
  \<open>v.toFixed(2)\<close> is too small and the order was cancelled; \<open>ContractsBelowMin\<close> is the
  note of line 306, which says that the contract quantity is below 0.01. The reasoning
  of a decision is the text received and the notes appended to it, in order, or the
  \<open>System Error\<close> text of the fallback.
\<close>

datatype audit = ValueTooSmall jsnum | ContractsBelowMin

datatype reasoning_text = ModelText "string option" "audit list" | SystemError failure

record AIDecision =
  d_stage_analysis :: "string option"
  d_trading_decision :: trading_decision
  d_reasoning :: reasoning_text
  d_action :: string
  d_size :: numstr
  d_leverage :: "numstr option"

section \<open>Post-processing and validation (getTradingDecision)\<close>

definition MIN_OPEN_VALUE :: jsnum where
  "MIN_OPEN_VALUE = Num 100"

definition confidence_of :: "trading_decision \<Rightarrow> jsnum" where
  "confidence_of td = or_default (parseFloat (td_confidence td)) (Num 50)"

definition safeLeverage_of :: "StageParams \<Rightarrow> trading_decision \<Rightarrow> jsnum" where
  "safeLeverage_of st td =
     (let leverage = parseFloat (td_leverage td)
      in if isNaN leverage then Num (stage_leverage st) else leverage)"

definition targetMargin :: "StageParams \<Rightarrow> jsnum \<Rightarrow> trading_decision \<Rightarrow> jsnum" where
  "targetMargin st availableEquity td =
     jsmul (jsmul availableEquity (risk_factor st)) (jsdiv (confidence_of td) (Num 100))"

definition maxSafeMargin :: "jsnum \<Rightarrow> jsnum" where
  "maxSafeMargin availableEquity = jsmul availableEquity (Num 0.90)"

text \<open>
  Steps A to C of the sizing: the final margin and the position value, after the
  attempt to lift an undersized position to the minimum open value.
\<close>

definition sizing :: "StageParams \<Rightarrow> jsnum \<Rightarrow> trading_decision \<Rightarrow> jsnum \<times> jsnum" where
  "sizing st availableEquity td =
     (let confidence = confidence_of td;
          safeLeverage = safeLeverage_of st td;
          finalMargin = Math_min (targetMargin st availableEquity td) (maxSafeMargin availableEquity);
          positionValue = jsmul finalMargin safeLeverage
      in if jslt positionValue MIN_OPEN_VALUE
            \<and> jsgt (jsmul (jsmul availableEquity (Num 0.9)) safeLeverage) MIN_OPEN_VALUE
         then (if jsge confidence (Num 40)
               then (jsdiv MIN_OPEN_VALUE safeLeverage, MIN_OPEN_VALUE)
               else (finalMargin, positionValue))
         else (finalMargin, positionValue))"

definition finalMargin :: "StageParams \<Rightarrow> jsnum \<Rightarrow> trading_decision \<Rightarrow> jsnum" where
  "finalMargin st availableEquity td = fst (sizing st availableEquity td)"

definition positionValue :: "StageParams \<Rightarrow> jsnum \<Rightarrow> trading_decision \<Rightarrow> jsnum" where
  "positionValue st availableEquity td = snd (sizing st availableEquity td)"

definition numContracts :: "jsnum \<Rightarrow> jsnum \<Rightarrow> jsnum" where
  "numContracts posValue currentPrice =
     (let numContractsRaw = jsdiv posValue (jsmul (Num CONTRACT_VAL_ETH) currentPrice)
      in jsdiv (Math_floor (jsmul numContractsRaw (Num 100))) (Num 100))"

definition append_note :: "string option \<Rightarrow> audit \<Rightarrow> reasoning_text" where
  "append_note r n = ModelText r [n]"

text \<open>
  The post-processing changes the parsed reply in place and returns it. On the two
  downgrades to HOLD it assigns the action, the size and the reasoning but not the
  leverage, so the decision keeps the top-level leverage of the reply, if it has one;
  on the other two branches the leverage is set to the leverage used.
\<close>

definition kept_leverage :: "RawDecision \<Rightarrow> numstr option" where
  "kept_leverage raw = map_option Lit (raw_leverage raw)"

definition postProcess ::
  "(string \<Rightarrow> string) \<Rightarrow> StageParams \<Rightarrow> jsnum \<Rightarrow> jsnum \<Rightarrow> RawDecision
     \<Rightarrow> failure + AIDecision" where
  "postProcess U st availableEquity currentPrice raw =
     (case raw_trading_decision raw of
        None \<Rightarrow> Inl TypeError
      | Some td \<Rightarrow>
          (case td_action td of
             None \<Rightarrow> Inl TypeError
           | Some a \<Rightarrow>
               (let act = toUpperCase U a;
                    safeLeverage = safeLeverage_of st td;
                    posValue = positionValue st availableEquity td;
                    contracts = numContracts posValue currentPrice
                in Inr
                  (if act = ''BUY'' \<or> act = ''SELL'' then
                     (if jslt posValue MIN_OPEN_VALUE then
                        \<lparr>d_stage_analysis = raw_stage_analysis raw,
                         d_trading_decision = td,
                         d_reasoning = append_note (raw_reasoning raw) (ValueTooSmall posValue),
                         d_action = ''HOLD'', d_size = Lit ''0'',
                         d_leverage = kept_leverage raw\<rparr>
                      else if jslt contracts (Num 0.01) then
                        \<lparr>d_stage_analysis = raw_stage_analysis raw,
                         d_trading_decision = td,
                         d_reasoning = append_note (raw_reasoning raw) ContractsBelowMin,
                         d_action = ''HOLD'', d_size = Lit ''0'',
                         d_leverage = kept_leverage raw\<rparr>
                      else
                        \<lparr>d_stage_analysis = raw_stage_analysis raw,
                         d_trading_decision = td,
                         d_reasoning = ModelText (raw_reasoning raw) [],
                         d_action = act, d_size = ToFixed2 contracts,
                         d_leverage = Some (ToString safeLeverage)\<rparr>)
                   else
                     \<lparr>d_stage_analysis = raw_stage_analysis raw,
                      d_trading_decision = td,
                      d_reasoning = ModelText (raw_reasoning raw) [],
                      d_action = act, d_size = Lit ''0'',
                      d_leverage = Some (ToString safeLeverage)\<rparr>))))"

text \<open>The decision returned by the \<open>catch\<close> block.\<close>

definition fallbackDecision :: "failure \<Rightarrow> AIDecision" where
  "fallbackDecision e =
     \<lparr>d_stage_analysis = Some ''AI Error'',
      d_trading_decision =
        \<lparr>td_action = Some ''hold'', td_confidence = Some ''0%'', td_leverage = Some ''0'',
         td_profit_target = Some ''0'', td_stop_loss = Some ''0''\<rparr>,
      d_reasoning = SystemError e,
      d_action = ''HOLD'', d_size = Lit ''0'', d_leverage = Some (Lit ''0'')\<rparr>"

text \<open>
  \<open>getTradingDecision\<close> from the reply on: the stage is chosen by the total equity,
  the reply is post-processed, and every failure ends in the fallback decision.
\<close>

definition getTradingDecision ::
  "(string \<Rightarrow> string) \<Rightarrow> jsnum \<Rightarrow> jsnum \<Rightarrow> jsnum \<Rightarrow> failure + RawDecision
     \<Rightarrow> AIDecision" where
  "getTradingDecision U totalEquity availableEquity currentPrice reply =
     (case reply of
        Inl e \<Rightarrow> fallbackDecision e
      | Inr raw \<Rightarrow>
          (case postProcess U (currentStageParams totalEquity) availableEquity currentPrice raw of
             Inl e \<Rightarrow> fallbackDecision e
           | Inr d \<Rightarrow> d))"

section \<open>The execution of a decision (runTradingLoop)\<close>

text \<open>
  What \<open>runTradingLoop\<close> does with the decision that \<open>getTradingDecision\<close> returned:
  the log entry of the decision, the dispatch on the action and the rolling logic, all
  inside the \<open>try\<close> of the loop. The exchange is outside the program: a call to it
  either returns or raises, which the parameter \<open>exch\<close> decides. What the loop does
  is recorded as the list of its exchange calls and log entries, in order; a log entry
  is its type and what it reports.
\<close>

definition INSTRUMENT_ID :: string where
  "INSTRUMENT_ID = ''ETH-USDT-SWAP''"

record Position =
  instId :: string
  posSide :: string
  pos :: string
  upl :: string
  uplRatio :: string

datatype log_type = INFO | WARNING | SUCCESS | ERROR | TRADE

datatype log_msg =
    DecisionMade
  | StrategyFailed
  | TpslNotSupportedInNetMode
  | TpslUpdated
  | TpslUpdateFailed
  | OrderExecuted
  | OrderFailed
  | RollTriggered jsnum
  | RollDone
  | RollFailed

text \<open>
  The calls to the exchange service: \<open>updatePositionTPSL\<close> with the instrument, the
  position side, the position size and the optional stop-loss and take-profit,
  \<open>executeOrder\<close> with the decision, and \<open>addMargin\<close> with the instrument, the
  position side and the amount.
\<close>

datatype exchange_call =
    UpdatePositionTPSL string string string "string option" "string option"
  | ExecuteOrder AIDecision
  | AddMargin string string numstr

datatype event = Log log_type log_msg | Call exchange_call

fun calls :: "event list \<Rightarrow> exchange_call list" where
  "calls [] = []"
| "calls (Call c # es) = c # calls es"
| "calls (Log t m # es) = calls es"

text \<open>
  \<open>isValid\<close> of the loop: a value that is absent, \<open>null\<close> or the empty string is
  not valid; any other is valid when it parses to a number that is not \<open>NaN\<close> and is
  greater than 0.
\<close>

definition isValid :: "string option \<Rightarrow> bool" where
  "isValid p =
     (case p of
        None \<Rightarrow> False
      | Some s \<Rightarrow>
          if s = [] then False
          else (let val = parseFloat_str s in \<not> isNaN val \<and> jsgt val (Num 0)))"

definition primaryPosition :: "Position list \<Rightarrow> Position option" where
  "primaryPosition positions = find (\<lambda>p. instId p = INSTRUMENT_ID) positions"

definition updateTPSL :: "(exchange_call \<Rightarrow> bool) \<Rightarrow> AIDecision \<Rightarrow> Position \<Rightarrow> event list" where
  "updateTPSL exch decision p =
     (let newSL = td_stop_loss (d_trading_decision decision);
          newTP = td_profit_target (d_trading_decision decision)
      in if isValid newSL \<or> isValid newTP then
           (if posSide p = ''net'' then [Log WARNING TpslNotSupportedInNetMode]
            else
              (let c = UpdatePositionTPSL INSTRUMENT_ID (posSide p) (pos p)
                         (if isValid newSL then newSL else None)
                         (if isValid newTP then newTP else None)
               in [Call c, if exch c then Log SUCCESS TpslUpdated else Log ERROR TpslUpdateFailed]))
         else [])"

definition rolling :: "(exchange_call \<Rightarrow> bool) \<Rightarrow> Position \<Rightarrow> event list" where
  "rolling exch p =
     (let ratio = jsmul (parseFloat_str (uplRatio p)) (Num 100)
      in if jsge ratio (Num 50) then
           (let c = AddMargin INSTRUMENT_ID (posSide p)
                      (ToFixed2 (jsmul (parseFloat_str (upl p)) (Num 0.5)))
            in [Log SUCCESS (RollTriggered ratio), Call c,
                if exch c then Log TRADE RollDone else Log ERROR RollFailed])
         else [])"

text \<open>The dispatch on the action and the rolling logic (lines 77 to 136).\<close>

definition dispatchActions ::
  "(exchange_call \<Rightarrow> bool) \<Rightarrow> AIDecision \<Rightarrow> Position list \<Rightarrow> event list" where
  "dispatchActions exch decision positions =
     (if d_action decision = ''UPDATE_TPSL'' then
        (case primaryPosition positions of
           None \<Rightarrow> []
         | Some p \<Rightarrow> updateTPSL exch decision p)
      else if d_action decision \<noteq> ''HOLD'' then
        [Call (ExecuteOrder decision),
         if exch (ExecuteOrder decision) then Log TRADE OrderExecuted
         else Log ERROR OrderFailed]
      else [])
     @ (if d_action decision = ''HOLD'' then
          (case primaryPosition positions of
             None \<Rightarrow> []
           | Some p \<Rightarrow> rolling exch p)
        else [])"

text \<open>
  Before the dispatch the loop logs the decision (line 72), and for that calls
  \<open>decision.stage_analysis.substring(0, 10)\<close>. When the stage analysis is not a
  string this raises a TypeError: the \<open>catch\<close> of the loop (line 138) logs an error,
  and the dispatch is never reached.
\<close>

definition executeActions ::
  "(exchange_call \<Rightarrow> bool) \<Rightarrow> AIDecision \<Rightarrow> Position list \<Rightarrow> event list" where
  "executeActions exch decision positions =
     (case d_stage_analysis decision of
        None \<Rightarrow> [Log ERROR StrategyFailed]
      | Some sa \<Rightarrow> Log INFO DecisionMade # dispatchActions exch decision positions)"

section \<open>Technical indicators\<close>

text \<open>
  A series is a list of numbers; a period is a natural number. Reading an array out of
  range gives \<open>undefined\<close>: as an operand of arithmetic it is \<open>NaN\<close> (\<open>elt\<close>), as a
  result it is \<open>None\<close>.
\<close>

definition elt :: "jsnum list \<Rightarrow> nat \<Rightarrow> jsnum" where
  "elt xs i = (if i < length xs then xs ! i else NaN)"

subsection \<open>calcRSI of services/aiService.ts\<close>

text \<open>The first loop, \<open>for (let i = 1; i <= period; i++)\<close>, from its index \<open>i\<close> on.\<close>

function rsi_sums :: "jsnum list \<Rightarrow> nat \<Rightarrow> nat \<Rightarrow> jsnum \<times> jsnum \<Rightarrow> jsnum \<times> jsnum" where
  "rsi_sums prices period i (gains, losses) =
     (if i \<le> period then
        (let change = jssub (elt prices i) (elt prices (i - 1))
         in rsi_sums prices period (Suc i)
              (if jsgt change (Num 0) then (jsadd gains change, losses)
               else (gains, jssub losses change)))
      else (gains, losses))"
  by pat_completeness auto
termination
  by (relation "measure (\<lambda>(prices, period, i, acc). Suc period - i)") auto

declare rsi_sums.simps [simp del]

definition rsi_of :: "jsnum \<Rightarrow> jsnum \<Rightarrow> jsnum" where
  "rsi_of avgGain avgLoss =
     (if jseq avgLoss (Num 0) then Num 100
      else (let rs = jsdiv avgGain avgLoss
            in jssub (Num 100) (jsdiv (Num 100) (jsadd (Num 1) rs))))"

definition calcRSI :: "jsnum list \<Rightarrow> nat \<Rightarrow> jsnum" where
  "calcRSI prices period =
     (if length prices < period + 1 then Num 50
      else
        (let (gains, losses) = rsi_sums prices period 1 (Num 0, Num 0);
             avgGain = jsdiv gains (Num (real period));
             avgLoss = jsdiv losses (Num (real period))
         in rsi_of avgGain avgLoss))"

subsection \<open>calcRSI with smoothing (the second version of aiService.ts)\<close>

text \<open>The second loop, \<open>for (let i = period + 1; i < prices.length; i++)\<close>.\<close>

function rsi_smooth :: "jsnum list \<Rightarrow> nat \<Rightarrow> nat \<Rightarrow> jsnum \<times> jsnum \<Rightarrow> jsnum \<times> jsnum" where
  "rsi_smooth prices period i (avgGain, avgLoss) =
     (if i < length prices then
        (let change = jssub (elt prices i) (elt prices (i - 1));
             gain = (if jsgt change (Num 0) then change else Num 0);
             loss = (if jslt change (Num 0) then jsneg change else Num 0)
         in rsi_smooth prices period (Suc i)
              (jsdiv (jsadd (jsmul avgGain (Num (real period - 1))) gain) (Num (real period)),
               jsdiv (jsadd (jsmul avgLoss (Num (real period - 1))) loss) (Num (real period))))
      else (avgGain, avgLoss))"
  by pat_completeness auto
termination
  by (relation "measure (\<lambda>(prices, period, i, acc). length prices - i)") auto

declare rsi_smooth.simps [simp del]

definition calcRSI_smoothed :: "jsnum list \<Rightarrow> nat \<Rightarrow> jsnum" where
  "calcRSI_smoothed prices period =
     (if length prices < period + 1 then Num 50
      else
        (let (gains, losses) = rsi_sums prices period 1 (Num 0, Num 0);
             (avgGain, avgLoss) =
               rsi_smooth prices period (period + 1)
                 (jsdiv gains (Num (real period)), jsdiv losses (Num (real period)))
         in rsi_of avgGain avgLoss))"

subsection \<open>The RSI of the specification\<close>

text \<open>
  The reference definition, written from the specification: with fewer than
  \<open>period + 1\<close> closes the value is 50; otherwise the average gain and the average loss
  over the first \<open>period\<close> deltas are smoothed over the remaining deltas by
  \<open>avg = (avg * (period - 1) + x) / period\<close>; the value is 100 when the average loss is
  0 and \<open>100 - 100 / (1 + avgGain / avgLoss)\<close> otherwise. The closes are finite numbers.
\<close>

definition deltas :: "real list \<Rightarrow> real list" where
  "deltas closes = map (\<lambda>(a, b). b - a) (zip closes (tl closes))"

definition gain_of :: "real \<Rightarrow> real" where
  "gain_of d = (if 0 < d then d else 0)"

definition loss_of :: "real \<Rightarrow> real" where
  "loss_of d = (if d < 0 then - d else 0)"

definition wilder :: "nat \<Rightarrow> real \<times> real \<Rightarrow> real \<Rightarrow> real \<times> real" where
  "wilder period avg d =
     ((fst avg * (real period - 1) + gain_of d) / real period,
      (snd avg * (real period - 1) + loss_of d) / real period)"

definition rsi_reference :: "real list \<Rightarrow> nat \<Rightarrow> real" where
  "rsi_reference closes period =
     (if length closes < period + 1 then 50
      else
        (let ds = deltas closes;
             avg0 = (sum_list (map gain_of (take period ds)) / real period,
                     sum_list (map loss_of (take period ds)) / real period);
             avg = foldl (wilder period) avg0 (drop period ds)
         in if snd avg = 0 then 100 else 100 - 100 / (1 + fst avg / snd avg)))"

subsection \<open>calcEMA, calcMACD and calcSMA\<close>

text \<open>
  \<open>calcEMA\<close> returns \<open>prices[prices.length - 1]\<close> for a series shorter than the
  period: the last element, or \<open>undefined\<close> when the series is empty (index -1).
  Otherwise it starts from \<open>prices[0]\<close>, which is \<open>undefined\<close> for an empty series,
  and runs over the rest of the series.
\<close>

fun ema_loop :: "jsnum \<Rightarrow> jsnum \<Rightarrow> jsnum list \<Rightarrow> jsnum" where
  "ema_loop k ema [] = ema"
| "ema_loop k ema (p # ps) = ema_loop k (jsadd (jsmul p k) (jsmul ema (jssub (Num 1) k))) ps"

definition calcEMA :: "jsnum list \<Rightarrow> nat \<Rightarrow> jsnum option" where
  "calcEMA prices period =
     (if length prices < period then
        (case prices of [] \<Rightarrow> None | p # ps \<Rightarrow> Some (last prices))
      else
        (let k = jsdiv (Num 2) (Num (real period + 1))
         in case prices of [] \<Rightarrow> None | p # ps \<Rightarrow> Some (ema_loop k p ps)))"

text \<open>\<open>prices.slice(-n)\<close>: the last \<open>n\<close> elements, or all of them.\<close>

definition slice_last :: "nat \<Rightarrow> 'a list \<Rightarrow> 'a list" where
  "slice_last n xs = drop (length xs - n) xs"

definition to_number :: "jsnum option \<Rightarrow> jsnum" where
  "to_number v = (case v of None \<Rightarrow> NaN | Some x \<Rightarrow> x)"

record Macd =
  macd :: jsnum
  signal :: jsnum
  hist :: jsnum

definition calcMACD :: "jsnum list \<Rightarrow> Macd" where
  "calcMACD prices =
     (if length prices < 26 then \<lparr>macd = Num 0, signal = Num 0, hist = Num 0\<rparr>
      else
        (let ema12 = calcEMA (slice_last 12 prices) 12;
             ema26 = calcEMA (slice_last 26 prices) 26;
             macdLine = jssub (to_number ema12) (to_number ema26);
             signalLine = jsmul macdLine (Num 0.8)
         in \<lparr>macd = macdLine, signal = signalLine, hist = jssub macdLine signalLine\<rparr>))"

definition calcSMA :: "jsnum list \<Rightarrow> nat \<Rightarrow> jsnum" where
  "calcSMA data period =
     (if length data < period then Num 0
      else jsdiv (foldl jsadd (Num 0) (slice_last period data)) (Num (real period)))"

section \<open>Evaluation rules\<close>

lemmas parse_defs = parseFloat_def parseFloat_str_def is_space_def is_digit_def digits_val_def
  digit_val_def digit_tab_def

lemma parseFloat_examples:
  "parseFloat (Some ''0'') = Num 0"
  "parseFloat (Some ''0%'') = Num 0"
  "parseFloat (Some ''85%'') = Num 85"
  "parseFloat (Some '' -2.50e1x'') = Num (- 25)"
  "parseFloat (Some '''') = NaN"
  "parseFloat (Some ''high'') = NaN"
  "parseFloat (Some ''Infinity'') = PInf"
  "parseFloat None = NaN"
  by (simp_all add: parse_defs)

lemmas cmp_defs = jsgt_def jsge_def jsle_def jseq_def

lemmas sizing_defs = sizing_def finalMargin_def positionValue_def targetMargin_def
  maxSafeMargin_def risk_factor_def confidence_of_def safeLeverage_of_def or_default_def
  Math_min_def MIN_OPEN_VALUE_def

lemmas upper_defs = is_ascii_def non_ascii_def upper_char_def upper_tab_def

text \<open>The upper case of an ASCII string does not depend on the Unicode tables.\<close>

lemma toUpperCase_ascii:
  "list_all is_ascii s \<Longrightarrow> toUpperCase U s = map upper_char s"
  by (induction s) (simp_all add: toUpperCase.simps)

lemma toUpperCase_actions:
  "toUpperCase U ''BUY'' = ''BUY''"
  "toUpperCase U ''SELL'' = ''SELL''"
  "toUpperCase U ''HOLD'' = ''HOLD''"
  "toUpperCase U ''buy'' = ''BUY''"
  "toUpperCase U ''long'' = ''LONG''"
  "toUpperCase U ''Update_tpsl'' = ''UPDATE_TPSL''"
  "toUpperCase U '' buy'' = '' BUY''"
  by (simp_all add: toUpperCase.simps upper_defs)

text \<open>
  With the Unicode tables, which map the long s (the bytes C5 BF) to S, the token
  that is spelt with a long s and \<open>ell\<close> becomes SELL.
\<close>

lemma toUpperCase_long_s:
  assumes "U [CHR 0xC5, CHR 0xBF] = ''S''"
  shows "toUpperCase U [CHR 0xC5, CHR 0xBF, CHR ''e'', CHR ''l'', CHR ''l''] = ''SELL''"
  using assms by (simp add: toUpperCase.simps upper_defs)

section \<open>The branches of the post-processing\<close>

text \<open>
  When the reply has a trading decision whose action is a string, the post-processing
  returns a decision, through one of four branches.
\<close>

lemma postProcess_cases:
  assumes "raw_trading_decision raw = Some td" and "td_action td = Some a"
  shows "postProcess U st av pr raw =
     Inr (if toUpperCase U a = ''BUY'' \<or> toUpperCase U a = ''SELL'' then
            (if jslt (positionValue st av td) MIN_OPEN_VALUE then
               \<lparr>d_stage_analysis = raw_stage_analysis raw, d_trading_decision = td,
                d_reasoning = ModelText (raw_reasoning raw) [ValueTooSmall (positionValue st av td)],
                d_action = ''HOLD'', d_size = Lit ''0'', d_leverage = kept_leverage raw\<rparr>
             else if jslt (numContracts (positionValue st av td) pr) (Num 0.01) then
               \<lparr>d_stage_analysis = raw_stage_analysis raw, d_trading_decision = td,
                d_reasoning = ModelText (raw_reasoning raw) [ContractsBelowMin],
                d_action = ''HOLD'', d_size = Lit ''0'', d_leverage = kept_leverage raw\<rparr>
             else
               \<lparr>d_stage_analysis = raw_stage_analysis raw, d_trading_decision = td,
                d_reasoning = ModelText (raw_reasoning raw) [],
                d_action = toUpperCase U a,
                d_size = ToFixed2 (numContracts (positionValue st av td) pr),
                d_leverage = Some (ToString (safeLeverage_of st td))\<rparr>)
          else
            \<lparr>d_stage_analysis = raw_stage_analysis raw, d_trading_decision = td,
             d_reasoning = ModelText (raw_reasoning raw) [],
             d_action = toUpperCase U a, d_size = Lit ''0'',
             d_leverage = Some (ToString (safeLeverage_of st td))\<rparr>)"
  using assms by (simp add: postProcess_def Let_def append_note_def)

section \<open>The worked sizing example\<close>

text \<open>
  C5. With available equity 50, risk factor 0.8 (stage 1), confidence 100, leverage 20,
  price 3000 and the contract value 0.1, the sizing computes the target margin 40, the
  safe margin 45, the final margin 40, the position value 800 and 2.66 contracts, and
  a BUY as well as a SELL decision is returned with the size \<open>(2.66).toFixed(2)\<close>.
\<close>

theorem C5_example_sizing:
  "CONTRACT_VAL_ETH = 0.1
   \<and> stage_risk_factor STAGE_1 = Some 0.8
   \<and> targetMargin STAGE_1 (Num 50)
        \<lparr>td_action = a, td_confidence = Some ''100'', td_leverage = Some ''20'',
         td_profit_target = pt, td_stop_loss = sl\<rparr> = Num 40
   \<and> maxSafeMargin (Num 50) = Num 45
   \<and> finalMargin STAGE_1 (Num 50)
        \<lparr>td_action = a, td_confidence = Some ''100'', td_leverage = Some ''20'',
         td_profit_target = pt, td_stop_loss = sl\<rparr> = Num 40
   \<and> positionValue STAGE_1 (Num 50)
        \<lparr>td_action = a, td_confidence = Some ''100'', td_leverage = Some ''20'',
         td_profit_target = pt, td_stop_loss = sl\<rparr> = Num 800
   \<and> numContracts (Num 800) (Num 3000) = Num 2.66
   \<and> postProcess U STAGE_1 (Num 50) (Num 3000)
        \<lparr>raw_trading_decision =
           Some \<lparr>td_action = Some ''BUY'', td_confidence = Some ''100'',
                 td_leverage = Some ''20'', td_profit_target = pt, td_stop_loss = sl\<rparr>,
         raw_reasoning = r, raw_stage_analysis = sa, raw_leverage = lv\<rparr>
       = Inr \<lparr>d_stage_analysis = sa,
              d_trading_decision =
                 \<lparr>td_action = Some ''BUY'', td_confidence = Some ''100'',
                  td_leverage = Some ''20'', td_profit_target = pt, td_stop_loss = sl\<rparr>,
              d_reasoning = ModelText r [], d_action = ''BUY'',
              d_size = ToFixed2 (Num 2.66), d_leverage = Some (ToString (Num 20))\<rparr>
   \<and> postProcess U STAGE_1 (Num 50) (Num 3000)
        \<lparr>raw_trading_decision =
           Some \<lparr>td_action = Some ''SELL'', td_confidence = Some ''100'',
                 td_leverage = Some ''20'', td_profit_target = pt, td_stop_loss = sl\<rparr>,
         raw_reasoning = r, raw_stage_analysis = sa, raw_leverage = lv\<rparr>
       = Inr \<lparr>d_stage_analysis = sa,
              d_trading_decision =
                 \<lparr>td_action = Some ''SELL'', td_confidence = Some ''100'',
                  td_leverage = Some ''20'', td_profit_target = pt, td_stop_loss = sl\<rparr>,
              d_reasoning = ModelText r [], d_action = ''SELL'',
              d_size = ToFixed2 (Num 2.66), d_leverage = Some (ToString (Num 20))\<rparr>"
proof -
  let ?td = "\<lambda>x. \<lparr>td_action = x, td_confidence = Some ''100'', td_leverage = Some ''20'',
                   td_profit_target = pt, td_stop_loss = sl\<rparr>"
  let ?raw = "\<lambda>x. \<lparr>raw_trading_decision = Some (?td x), raw_reasoning = r,
                    raw_stage_analysis = sa, raw_leverage = lv\<rparr>"
  have tm: "targetMargin STAGE_1 (Num 50) (?td x) = Num 40" for x
    by (simp add: sizing_defs STAGE_1_def parse_defs)
  have ms: "maxSafeMargin (Num 50) = Num 45"
    by (simp add: maxSafeMargin_def)
  have sz: "sizing STAGE_1 (Num 50) (?td x) = (Num 40, Num 800)" for x
    by (simp add: sizing_defs STAGE_1_def parse_defs cmp_defs)
  have nc: "numContracts (Num 800) (Num 3000) = Num 2.66"
    by (simp add: numContracts_def CONTRACT_VAL_ETH_def)
  have lev: "safeLeverage_of STAGE_1 (?td x) = Num 20" for x
    by (simp add: safeLeverage_of_def parse_defs)
  have buy: "postProcess U STAGE_1 (Num 50) (Num 3000) (?raw (Some ''BUY''))
             = Inr \<lparr>d_stage_analysis = sa, d_trading_decision = ?td (Some ''BUY''),
                    d_reasoning = ModelText r [],
                    d_action = ''BUY'', d_size = ToFixed2 (Num 2.66),
                    d_leverage = Some (ToString (Num 20))\<rparr>"
    by (simp add: postProcess_def positionValue_def sz nc lev toUpperCase_actions
        MIN_OPEN_VALUE_def Let_def)
  have sell: "postProcess U STAGE_1 (Num 50) (Num 3000) (?raw (Some ''SELL''))
             = Inr \<lparr>d_stage_analysis = sa, d_trading_decision = ?td (Some ''SELL''),
                    d_reasoning = ModelText r [],
                    d_action = ''SELL'', d_size = ToFixed2 (Num 2.66),
                    d_leverage = Some (ToString (Num 20))\<rparr>"
    by (simp add: postProcess_def positionValue_def sz nc lev toUpperCase_actions
        MIN_OPEN_VALUE_def Let_def)
  have cv: "CONTRACT_VAL_ETH = 0.1" "stage_risk_factor STAGE_1 = Some 0.8"
    by (simp_all add: CONTRACT_VAL_ETH_def STAGE_1_def)
  show ?thesis
    using cv tm [of a] ms sz [of a] nc buy sell
    by (simp only: finalMargin_def positionValue_def fst_conv snd_conv simp_thms)
qed

section \<open>A confidence of zero\<close>

text \<open>
  C10. When the confidence field parses to exactly 0, the confidence used for sizing is
  50: \<open>parseFloat(...) || 50\<close> replaces the falsy value 0. The sizing is the one of the
  same decision with the confidence \<open>50\<close>.
\<close>

theorem C10_zero_confidence:
  assumes "parseFloat (td_confidence td) = Num 0"
  shows "confidence_of td = Num 50
       \<and> sizing st availableEquity td
           = sizing st availableEquity (td\<lparr>td_confidence := Some ''50''\<rparr>)"
proof -
  have c: "confidence_of td = Num 50"
    using assms by (simp add: confidence_of_def or_default_def)
  have c': "confidence_of (td\<lparr>td_confidence := Some ''50''\<rparr>) = Num 50"
    by (simp add: confidence_of_def or_default_def parse_defs)
  have l: "safeLeverage_of st (td\<lparr>td_confidence := Some ''50''\<rparr>) = safeLeverage_of st td"
    by (simp add: safeLeverage_of_def)
  show ?thesis
    using c by (simp add: sizing_def targetMargin_def c c' l)
qed

theorem C10_zero_confidence_witness:
  "parseFloat (td_confidence \<lparr>td_action = Some ''BUY'', td_confidence = Some ''0%'',
        td_leverage = Some ''20'', td_profit_target = None, td_stop_loss = None\<rparr>) = Num 0
   \<and> confidence_of \<lparr>td_action = Some ''BUY'', td_confidence = Some ''0%'',
        td_leverage = Some ''20'', td_profit_target = None, td_stop_loss = None\<rparr> = Num 50"
proof -
  have h: "parseFloat (td_confidence \<lparr>td_action = Some ''BUY'', td_confidence = Some ''0%'',
        td_leverage = Some ''20'', td_profit_target = None, td_stop_loss = None\<rparr>) = Num 0"
    by (simp add: parse_defs)
  from C10_zero_confidence [OF h] h show ?thesis by simp
qed

section \<open>The minimum position value\<close>

text \<open>
  The closed evaluations of this theory are on ASCII action tokens, whose upper case
  does not depend on the Unicode tables; they are stated for the tables that leave a
  run outside ASCII as it is.
\<close>

text \<open>
  C1, as stated, fails: the notional value of the returned order, contract quantity
  times contract value times price, can be below 100. With available equity 10,
  stage 1, confidence 50 and leverage 20 the position value 80 is lifted to exactly
  100; at the price 3000 this is 0.3333 contracts, floored to 0.33, and the order that
  is returned as a BUY is worth 0.33 * 0.1 * 3000 = 99.
\<close>

theorem C1_counterexample:
  "postProcess (\<lambda>r. r) STAGE_1 (Num 10) (Num 3000)
     \<lparr>raw_trading_decision =
        Some \<lparr>td_action = Some ''BUY'', td_confidence = Some ''50'', td_leverage = Some ''20'',
              td_profit_target = None, td_stop_loss = None\<rparr>,
      raw_reasoning = None, raw_stage_analysis = Some ''trend'', raw_leverage = None\<rparr>
   = Inr \<lparr>d_stage_analysis = Some ''trend'',
          d_trading_decision =
             \<lparr>td_action = Some ''BUY'', td_confidence = Some ''50'', td_leverage = Some ''20'',
              td_profit_target = None, td_stop_loss = None\<rparr>,
          d_reasoning = ModelText None [], d_action = ''BUY'',
          d_size = ToFixed2 (Num 0.33), d_leverage = Some (ToString (Num 20))\<rparr>
   \<and> jsmul (jsmul (Num 0.33) (Num CONTRACT_VAL_ETH)) (Num 3000) = Num 99
   \<and> jslt (Num 99) MIN_OPEN_VALUE"
proof -
  let ?td = "\<lparr>td_action = Some ''BUY'', td_confidence = Some ''50'', td_leverage = Some ''20'',
              td_profit_target = None, td_stop_loss = None\<rparr>"
  have sz: "sizing STAGE_1 (Num 10) ?td = (Num 5, Num 100)"
    by (simp add: sizing_defs STAGE_1_def parse_defs cmp_defs)
  have nc: "numContracts (Num 100) (Num 3000) = Num 0.33"
    by (simp add: numContracts_def CONTRACT_VAL_ETH_def)
  have lev: "safeLeverage_of STAGE_1 ?td = Num 20"
    by (simp add: safeLeverage_of_def parse_defs)
  show ?thesis
    by (simp add: postProcess_def positionValue_def sz nc lev toUpperCase_actions
        MIN_OPEN_VALUE_def Let_def CONTRACT_VAL_ETH_def)
qed

text \<open>
  C1, amended: the floor is checked on the position value of the sizing (final margin
  times leverage, after the lift), before the contract quantity is rounded down. A
  decision returned as BUY or SELL never has a position value below
  \<open>MIN_OPEN_VALUE\<close>; and when the action is BUY or SELL and the position value is
  below it, the decision is downgraded to HOLD, its size is \<open>0\<close>, and the note of the
  downgrade is appended to the reasoning.
\<close>

theorem C1_sizing_notional_floor:
  assumes "raw_trading_decision raw = Some td" and "td_action td = Some a"
  shows "\<exists>d. postProcess U st av pr raw = Inr d
    \<and> (d_action d = ''BUY'' \<or> d_action d = ''SELL''
         \<longrightarrow> \<not> jslt (positionValue st av td) MIN_OPEN_VALUE)
    \<and> ((toUpperCase U a = ''BUY'' \<or> toUpperCase U a = ''SELL'')
          \<and> jslt (positionValue st av td) MIN_OPEN_VALUE
         \<longrightarrow> d_action d = ''HOLD'' \<and> d_size d = Lit ''0''
             \<and> d_reasoning d
                 = ModelText (raw_reasoning raw) [ValueTooSmall (positionValue st av td)])"
  by (simp add: postProcess_cases [OF assms])

theorem C1_sizing_notional_floor_witness:
  "(let td = \<lparr>td_action = Some ''buy'', td_confidence = Some ''50%'', td_leverage = Some ''20'',
              td_profit_target = None, td_stop_loss = None\<rparr>;
        raw = \<lparr>raw_trading_decision = Some td, raw_reasoning = Some ''breakout'',
               raw_stage_analysis = Some ''trend'', raw_leverage = None\<rparr>
    in raw_trading_decision raw = Some td \<and> td_action td = Some ''buy''
       \<and> toUpperCase (\<lambda>r. r) ''buy'' = ''BUY''
       \<and> positionValue STAGE_1 (Num 5) td = Num 40
       \<and> jslt (positionValue STAGE_1 (Num 5) td) MIN_OPEN_VALUE
       \<and> (\<exists>d. postProcess (\<lambda>r. r) STAGE_1 (Num 5) (Num 3000) raw = Inr d
              \<and> d_action d = ''HOLD'' \<and> d_size d = Lit ''0''
              \<and> d_reasoning d = ModelText (Some ''breakout'') [ValueTooSmall (Num 40)]))"
proof -
  let ?td = "\<lparr>td_action = Some ''buy'', td_confidence = Some ''50%'', td_leverage = Some ''20'',
              td_profit_target = None, td_stop_loss = None\<rparr>"
  let ?raw = "\<lparr>raw_trading_decision = Some ?td, raw_reasoning = Some ''breakout'',
               raw_stage_analysis = Some ''trend'', raw_leverage = None\<rparr>"
  have h1: "raw_trading_decision ?raw = Some ?td" by simp
  have h2: "td_action ?td = Some ''buy''" by simp
  have pv: "positionValue STAGE_1 (Num 5) ?td = Num 40"
    by (simp add: sizing_defs STAGE_1_def parse_defs cmp_defs)
  have lt: "jslt (Num 40) MIN_OPEN_VALUE"
    by (simp add: MIN_OPEN_VALUE_def)
  from C1_sizing_notional_floor [OF h1 h2, of "\<lambda>r. r" STAGE_1 "Num 5" "Num 3000"]
  have "\<exists>d. postProcess (\<lambda>r. r) STAGE_1 (Num 5) (Num 3000) ?raw = Inr d
              \<and> d_action d = ''HOLD'' \<and> d_size d = Lit ''0''
              \<and> d_reasoning d = ModelText (Some ''breakout'') [ValueTooSmall (Num 40)]"
    by (auto simp add: pv lt toUpperCase_actions)
  then show ?thesis
    by (simp add: Let_def pv lt toUpperCase_actions)
qed

text \<open>
  The same through \<open>getTradingDecision\<close>, for every reply and every total equity: a
  failed request, an unreadable reply and a reply without an action end in the fallback
  HOLD, so a decision returned as BUY or SELL comes from a reply whose position value,
  in the stage of the total equity, is not below \<open>MIN_OPEN_VALUE\<close>.
\<close>

lemma getTradingDecision_floor:
  assumes "d_action (getTradingDecision U totalEquity av pr reply) = ''BUY''
         \<or> d_action (getTradingDecision U totalEquity av pr reply) = ''SELL''"
  shows "\<exists>raw td. reply = Inr raw \<and> raw_trading_decision raw = Some td
           \<and> \<not> jslt (positionValue (currentStageParams totalEquity) av td) MIN_OPEN_VALUE"
proof (cases reply)
  case (Inl e)
  with assms show ?thesis
    by (simp add: getTradingDecision_def fallbackDecision_def)
next
  case (Inr raw)
  show ?thesis
  proof (cases "raw_trading_decision raw")
    case None
    with Inr assms show ?thesis
      by (simp add: getTradingDecision_def postProcess_def fallbackDecision_def)
  next
    case (Some td)
    show ?thesis
    proof (cases "td_action td")
      case None
      with Inr Some assms show ?thesis
        by (simp add: getTradingDecision_def postProcess_def fallbackDecision_def)
    next
      case (Some a)
      with Inr \<open>raw_trading_decision raw = Some td\<close> assms show ?thesis
        by (auto simp add: getTradingDecision_def postProcess_cases split: if_splits)
    qed
  qed
qed

text \<open>
  The comparison with the floor is the one of JavaScript: a position value that is
  \<open>NaN\<close> is not below it. In stage 3, which has no risk factor, every target margin
  is \<open>NaN\<close>, and a BUY is returned with the size \<open>NaN.toFixed(2)\<close>.
\<close>

lemma stage3_size_NaN:
  "getTradingDecision U (Num 100) (Num 90) (Num 3000)
     (Inr \<lparr>raw_trading_decision =
             Some \<lparr>td_action = Some ''BUY'', td_confidence = Some ''80'',
                   td_leverage = Some ''5'', td_profit_target = None, td_stop_loss = None\<rparr>,
           raw_reasoning = None, raw_stage_analysis = sa, raw_leverage = lv\<rparr>)
   = \<lparr>d_stage_analysis = sa,
      d_trading_decision =
         \<lparr>td_action = Some ''BUY'', td_confidence = Some ''80'', td_leverage = Some ''5'',
          td_profit_target = None, td_stop_loss = None\<rparr>,
      d_reasoning = ModelText None [], d_action = ''BUY'', d_size = ToFixed2 NaN,
      d_leverage = Some (ToString (Num 5))\<rparr>"
proof -
  let ?td = "\<lparr>td_action = Some ''BUY'', td_confidence = Some ''80'', td_leverage = Some ''5'',
              td_profit_target = None, td_stop_loss = None\<rparr>"
  let ?raw = "\<lparr>raw_trading_decision = Some ?td, raw_reasoning = None,
               raw_stage_analysis = sa, raw_leverage = lv\<rparr>"
  have st: "currentStageParams (Num 100) = STAGE_3"
    by (simp add: currentStageParams_def)
  have sz: "sizing STAGE_3 (Num 90) ?td = (NaN, NaN)"
    by (simp add: sizing_defs STAGE_3_def parse_defs cmp_defs)
  have nc: "numContracts NaN (Num 3000) = NaN"
    by (simp add: numContracts_def)
  have l: "safeLeverage_of STAGE_3 ?td = Num 5"
    by (simp add: safeLeverage_of_def parse_defs)
  have "td_action ?td = Some ''BUY''" by simp
  from postProcess_cases [OF _ this, of ?raw U STAGE_3 "Num 90" "Num 3000"]
  show ?thesis
    by (simp add: getTradingDecision_def st positionValue_def sz nc l toUpperCase_actions
        MIN_OPEN_VALUE_def)
qed

section \<open>Confidence and leverage after parsing\<close>



text \<open>
  A downgrade keeps the leverage of the reply: a BUY with the available equity 5 is
  downgraded to HOLD, and the decision returned carries the top-level leverage
  \<open>-3\<close> that the reply had, which is not the leverage used, 20.
\<close>

lemma downgrade_keeps_reply_leverage:
  "postProcess U STAGE_1 (Num 5) (Num 3000)
     \<lparr>raw_trading_decision =
        Some \<lparr>td_action = Some ''BUY'', td_confidence = Some ''50'', td_leverage = Some ''20'',
              td_profit_target = None, td_stop_loss = None\<rparr>,
      raw_reasoning = None, raw_stage_analysis = sa, raw_leverage = Some ''-3''\<rparr>
   = Inr \<lparr>d_stage_analysis = sa,
          d_trading_decision =
             \<lparr>td_action = Some ''BUY'', td_confidence = Some ''50'', td_leverage = Some ''20'',
              td_profit_target = None, td_stop_loss = None\<rparr>,
          d_reasoning = ModelText None [ValueTooSmall (Num 40)], d_action = ''HOLD'',
          d_size = Lit ''0'', d_leverage = Some (Lit ''-3'')\<rparr>"
proof -
  let ?td = "\<lparr>td_action = Some ''BUY'', td_confidence = Some ''50'', td_leverage = Some ''20'',
              td_profit_target = None, td_stop_loss = None\<rparr>"
  let ?raw = "\<lparr>raw_trading_decision = Some ?td, raw_reasoning = None,
               raw_stage_analysis = sa, raw_leverage = Some ''-3''\<rparr>"
  have pv: "positionValue STAGE_1 (Num 5) ?td = Num 40"
    by (simp add: sizing_defs STAGE_1_def parse_defs cmp_defs)
  have "td_action ?td = Some ''BUY''" by simp
  from postProcess_cases [OF _ this, of ?raw U STAGE_1 "Num 5" "Num 3000"]
  show ?thesis
    by (simp add: pv toUpperCase_actions MIN_OPEN_VALUE_def kept_leverage_def)
qed

section \<open>Available equity of zero or less\<close>

text \<open>
  C4, as stated, fails: the leverage is one of the fields the claim lets vary, and with
  a negative leverage a negative margin gives a positive position value. With available
  equity -100, confidence 50 and leverage -5 the final margin is -90, the position
  value 450, and the BUY is returned with 1.5 contracts.
\<close>

theorem C4_counterexample:
  "finalMargin STAGE_1 (Num (- 100))
     \<lparr>td_action = Some ''BUY'', td_confidence = Some ''50'', td_leverage = Some ''-5'',
      td_profit_target = None, td_stop_loss = None\<rparr> = Num (- 90)
   \<and> postProcess (\<lambda>r. r) STAGE_1 (Num (- 100)) (Num 3000)
        \<lparr>raw_trading_decision =
           Some \<lparr>td_action = Some ''BUY'', td_confidence = Some ''50'',
                 td_leverage = Some ''-5'', td_profit_target = None, td_stop_loss = None\<rparr>,
         raw_reasoning = None, raw_stage_analysis = Some ''trend'', raw_leverage = None\<rparr>
       = Inr \<lparr>d_stage_analysis = Some ''trend'',
              d_trading_decision =
                 \<lparr>td_action = Some ''BUY'', td_confidence = Some ''50'',
                  td_leverage = Some ''-5'', td_profit_target = None, td_stop_loss = None\<rparr>,
              d_reasoning = ModelText None [], d_action = ''BUY'',
              d_size = ToFixed2 (Num 1.5), d_leverage = Some (ToString (Num (- 5)))\<rparr>"
proof -
  let ?td = "\<lparr>td_action = Some ''BUY'', td_confidence = Some ''50'', td_leverage = Some ''-5'',
      td_profit_target = None, td_stop_loss = None\<rparr>"
  let ?raw = "\<lparr>raw_trading_decision = Some ?td, raw_reasoning = None,
               raw_stage_analysis = Some ''trend'', raw_leverage = None\<rparr>"
  have sz: "sizing STAGE_1 (Num (- 100)) ?td = (Num (- 90), Num 450)"
    by (simp add: sizing_defs STAGE_1_def parse_defs cmp_defs)
  have nc: "numContracts (Num 450) (Num 3000) = Num 1.5"
    by (simp add: numContracts_def CONTRACT_VAL_ETH_def)
  have l: "safeLeverage_of STAGE_1 ?td = Num (- 5)"
    by (simp add: safeLeverage_of_def parse_defs)
  have "td_action ?td = Some ''BUY''" by simp
  from postProcess_cases [OF _ this, of ?raw "\<lambda>r. r" STAGE_1 "Num (- 100)" "Num 3000"]
  show ?thesis
    by (simp add: finalMargin_def positionValue_def sz nc l toUpperCase_actions MIN_OPEN_VALUE_def)
qed

lemma Math_min_Num: "Math_min (Num t) (Num s) = Num (min t s)"
  by (auto simp add: Math_min_def min_def)

lemma sizing_nonpositive_equity:
  assumes "a \<le> 0" and "stage_risk_factor st = Some rf" and "confidence_of td = Num c"
    and "safeLeverage_of st td = Num l" and "0 < l"
  shows "sizing st (Num a) td
           = (Num (min (a * rf * (c / 100)) (a * 0.9)), Num (min (a * rf * (c / 100)) (a * 0.9) * l))"
proof -
  let ?m = "min (a * rf * (c / 100)) (a * 0.9)"
  have tm: "targetMargin st (Num a) td = Num (a * rf * (c / 100))"
    using assms by (simp add: targetMargin_def risk_factor_def)
  have ms: "maxSafeMargin (Num a) = Num (a * 0.9)"
    by (simp add: maxSafeMargin_def)
  have fm: "Math_min (targetMargin st (Num a) td) (maxSafeMargin (Num a)) = Num ?m"
    by (simp only: tm ms Math_min_Num)
  have "?m \<le> a * 0.9" by simp
  with \<open>a \<le> 0\<close> have m0: "?m \<le> 0" by linarith
  with \<open>0 < l\<close> have "?m * l \<le> 0" by (simp add: mult_le_0_iff)
  then have pv: "?m * l < 100" by linarith
  from \<open>a \<le> 0\<close> \<open>0 < l\<close> have "a * 0.9 * l \<le> 0" by (simp add: mult_le_0_iff)
  then have resc: "\<not> 100 < a * 0.9 * l" by linarith
  show ?thesis
    unfolding sizing_def Let_def fm
    using pv resc assms by (simp add: MIN_OPEN_VALUE_def jsgt_def)
qed

text \<open>
  C4, amended: when the available equity is a number at most 0, the stage has a risk
  factor, the confidence used is finite and the leverage used is finite and positive,
  the final margin is at most 0 and a BUY or SELL is downgraded to HOLD by the check of
  the position value, with size \<open>0\<close> and the note of the downgrade.
\<close>

theorem C4_nonpositive_equity_holds:
  assumes "raw_trading_decision raw = Some td" and "td_action td = Some x"
    and "toUpperCase U x = ''BUY'' \<or> toUpperCase U x = ''SELL''"
    and "a \<le> 0" and "stage_risk_factor st = Some rf" and "confidence_of td = Num c"
    and "safeLeverage_of st td = Num l" and "0 < l"
  shows "\<exists>m. finalMargin st (Num a) td = Num m \<and> m \<le> 0
     \<and> postProcess U st (Num a) pr raw
         = Inr \<lparr>d_stage_analysis = raw_stage_analysis raw, d_trading_decision = td,
                d_reasoning = ModelText (raw_reasoning raw) [ValueTooSmall (Num (m * l))],
                d_action = ''HOLD'', d_size = Lit ''0'', d_leverage = kept_leverage raw\<rparr>"
proof -
  let ?m = "min (a * rf * (c / 100)) (a * 0.9)"
  have sz: "sizing st (Num a) td = (Num ?m, Num (?m * l))"
    using assms(4-8) by (rule sizing_nonpositive_equity)
  have "?m \<le> a * 0.9" by simp
  with \<open>a \<le> 0\<close> have m0: "?m \<le> 0" by linarith
  with \<open>0 < l\<close> have "?m * l \<le> 0" by (simp add: mult_le_0_iff)
  then have pv: "?m * l < 100" by linarith
  have "postProcess U st (Num a) pr raw
         = Inr \<lparr>d_stage_analysis = raw_stage_analysis raw, d_trading_decision = td,
                d_reasoning = ModelText (raw_reasoning raw) [ValueTooSmall (Num (?m * l))],
                d_action = ''HOLD'', d_size = Lit ''0'', d_leverage = kept_leverage raw\<rparr>"
    using assms(3) pv
    by (simp add: postProcess_cases [OF assms(1,2)] positionValue_def sz MIN_OPEN_VALUE_def)
  with m0 show ?thesis
    by (intro exI [of _ ?m]) (simp add: finalMargin_def sz)
qed

theorem C4_nonpositive_equity_holds_witness:
  "(let td = \<lparr>td_action = Some ''BUY'', td_confidence = Some ''50'', td_leverage = Some ''20'',
              td_profit_target = None, td_stop_loss = None\<rparr>;
        raw = \<lparr>raw_trading_decision = Some td, raw_reasoning = None,
               raw_stage_analysis = Some ''trend'', raw_leverage = None\<rparr>
    in raw_trading_decision raw = Some td \<and> td_action td = Some ''BUY''
       \<and> toUpperCase (\<lambda>r. r) ''BUY'' = ''BUY''
       \<and> (- 10 :: real) \<le> 0
       \<and> stage_risk_factor STAGE_1 = Some 0.8
       \<and> confidence_of td = Num 50
       \<and> safeLeverage_of STAGE_1 td = Num 20
       \<and> (0 :: real) < 20
       \<and> (\<exists>m. finalMargin STAGE_1 (Num (- 10)) td = Num m \<and> m \<le> 0
             \<and> postProcess (\<lambda>r. r) STAGE_1 (Num (- 10)) (Num 3000) raw
                 = Inr \<lparr>d_stage_analysis = Some ''trend'', d_trading_decision = td,
                        d_reasoning = ModelText (raw_reasoning raw) [ValueTooSmall (Num (m * 20))],
                        d_action = ''HOLD'', d_size = Lit ''0'', d_leverage = None\<rparr>))"
proof -
  let ?td = "\<lparr>td_action = Some ''BUY'', td_confidence = Some ''50'', td_leverage = Some ''20'',
              td_profit_target = None, td_stop_loss = None\<rparr>"
  let ?raw = "\<lparr>raw_trading_decision = Some ?td, raw_reasoning = None,
               raw_stage_analysis = Some ''trend'', raw_leverage = None\<rparr>"
  have h1: "raw_trading_decision ?raw = Some ?td" by simp
  have h2: "td_action ?td = Some ''BUY''" by simp
  have h3: "toUpperCase (\<lambda>r. r) ''BUY'' = ''BUY'' \<or> toUpperCase (\<lambda>r. r) ''BUY'' = ''SELL''"
    by (simp add: toUpperCase_actions)
  have h4: "(- 10 :: real) \<le> 0" by simp
  have h5: "stage_risk_factor STAGE_1 = Some 0.8" by (simp add: STAGE_1_def)
  have h6: "confidence_of ?td = Num 50"
    by (simp add: confidence_of_def or_default_def parse_defs)
  have h7: "safeLeverage_of STAGE_1 ?td = Num 20"
    by (simp add: safeLeverage_of_def parse_defs)
  have h8: "(0 :: real) < 20" by simp
  note C4_nonpositive_equity_holds [OF h1 h2 h3 h4 h5 h6 h7 h8, of "Num 3000"]
  with h1 h2 h5 h6 h7 show ?thesis
    by (simp add: Let_def toUpperCase_actions kept_leverage_def)
qed

section \<open>Unrecognized actions\<close>

text \<open>
  C2, as stated, fails: the post-processing only upper-cases the action. The token
  \<open>long\<close> becomes the action \<open>LONG\<close>, with size \<open>0\<close> and no note, and the loop,
  which passes every action other than \<open>UPDATE_TPSL\<close> and \<open>HOLD\<close> to
  \<open>executeOrder\<close>, calls the exchange with it.
\<close>

theorem C2_counterexample:
  "postProcess (\<lambda>r. r) STAGE_1 (Num 50) (Num 3000)
     \<lparr>raw_trading_decision =
        Some \<lparr>td_action = Some ''long'', td_confidence = Some ''90'', td_leverage = Some ''20'',
              td_profit_target = None, td_stop_loss = None\<rparr>,
      raw_reasoning = None, raw_stage_analysis = Some ''trend'', raw_leverage = None\<rparr>
   = Inr \<lparr>d_stage_analysis = Some ''trend'',
          d_trading_decision =
             \<lparr>td_action = Some ''long'', td_confidence = Some ''90'', td_leverage = Some ''20'',
              td_profit_target = None, td_stop_loss = None\<rparr>,
          d_reasoning = ModelText None [], d_action = ''LONG'', d_size = Lit ''0'',
          d_leverage = Some (ToString (Num 20))\<rparr>
   \<and> executeActions (\<lambda>c. True)
        \<lparr>d_stage_analysis = Some ''trend'',
         d_trading_decision =
             \<lparr>td_action = Some ''long'', td_confidence = Some ''90'', td_leverage = Some ''20'',
              td_profit_target = None, td_stop_loss = None\<rparr>,
          d_reasoning = ModelText None [], d_action = ''LONG'', d_size = Lit ''0'',
          d_leverage = Some (ToString (Num 20))\<rparr> []
     = [Log INFO DecisionMade,
        Call (ExecuteOrder
          \<lparr>d_stage_analysis = Some ''trend'',
           d_trading_decision =
             \<lparr>td_action = Some ''long'', td_confidence = Some ''90'', td_leverage = Some ''20'',
              td_profit_target = None, td_stop_loss = None\<rparr>,
          d_reasoning = ModelText None [], d_action = ''LONG'', d_size = Lit ''0'',
          d_leverage = Some (ToString (Num 20))\<rparr>),
        Log TRADE OrderExecuted]"
proof -
  let ?td = "\<lparr>td_action = Some ''long'', td_confidence = Some ''90'', td_leverage = Some ''20'',
              td_profit_target = None, td_stop_loss = None\<rparr>"
  let ?raw = "\<lparr>raw_trading_decision = Some ?td, raw_reasoning = None,
               raw_stage_analysis = Some ''trend'', raw_leverage = None\<rparr>"
  have l: "safeLeverage_of STAGE_1 ?td = Num 20"
    by (simp add: safeLeverage_of_def parse_defs)
  have "td_action ?td = Some ''long''" by simp
  from postProcess_cases [OF _ this, of ?raw "\<lambda>r. r" STAGE_1 "Num 50" "Num 3000"]
  show ?thesis
    by (simp add: l toUpperCase_actions executeActions_def dispatchActions_def)
qed

text \<open>
  C2, amended: an action token is upper-cased, not trimmed, and never replaced. When
  the upper-cased token is none of BUY, SELL, HOLD, CLOSE and UPDATE_TPSL, the decision
  returned has this token as its action, the size \<open>0\<close>, the leverage used and the
  reasoning as received, without a note. When the reply has a stage analysis that is a
  string, the loop logs the decision and passes it to \<open>executeOrder\<close>, once, and
  makes no other call; when it has none, the loop fails at its log entry and makes no
  call at all.
\<close>

theorem C2_unrecognized_action_passed_on:
  assumes "raw_trading_decision raw = Some td" and "td_action td = Some a"
    and "toUpperCase U a \<notin> {''BUY'', ''SELL'', ''HOLD'', ''CLOSE'', ''UPDATE_TPSL''}"
  shows "\<exists>d. postProcess U st av pr raw = Inr d
    \<and> d = \<lparr>d_stage_analysis = raw_stage_analysis raw, d_trading_decision = td,
            d_reasoning = ModelText (raw_reasoning raw) [],
            d_action = toUpperCase U a, d_size = Lit ''0'',
            d_leverage = Some (ToString (safeLeverage_of st td))\<rparr>
    \<and> executeActions exch d positions
        = (case raw_stage_analysis raw of
             None \<Rightarrow> [Log ERROR StrategyFailed]
           | Some sa \<Rightarrow>
               [Log INFO DecisionMade, Call (ExecuteOrder d),
                if exch (ExecuteOrder d) then Log TRADE OrderExecuted
                else Log ERROR OrderFailed])"
  using assms(3)
  by (simp add: postProcess_cases [OF assms(1,2)] executeActions_def dispatchActions_def
      split: option.split)

theorem C2_unrecognized_action_passed_on_witness:
  "(let td = \<lparr>td_action = Some ''long'', td_confidence = Some ''90'', td_leverage = Some ''20'',
              td_profit_target = None, td_stop_loss = None\<rparr>;
        raw = \<lparr>raw_trading_decision = Some td, raw_reasoning = None,
               raw_stage_analysis = Some ''trend'', raw_leverage = None\<rparr>
    in raw_trading_decision raw = Some td \<and> td_action td = Some ''long''
       \<and> toUpperCase (\<lambda>r. r) ''long'' \<notin> {''BUY'', ''SELL'', ''HOLD'', ''CLOSE'', ''UPDATE_TPSL''}
       \<and> (\<exists>d. postProcess (\<lambda>r. r) STAGE_1 (Num 50) (Num 3000) raw = Inr d
             \<and> d_action d = ''LONG'' \<and> d_size d = Lit ''0''
             \<and> d_reasoning d = ModelText None []
             \<and> calls (executeActions (\<lambda>c. False) d []) = [ExecuteOrder d]))"
proof -
  let ?td = "\<lparr>td_action = Some ''long'', td_confidence = Some ''90'', td_leverage = Some ''20'',
              td_profit_target = None, td_stop_loss = None\<rparr>"
  let ?raw = "\<lparr>raw_trading_decision = Some ?td, raw_reasoning = None,
               raw_stage_analysis = Some ''trend'', raw_leverage = None\<rparr>"
  have h1: "raw_trading_decision ?raw = Some ?td" by simp
  have h2: "td_action ?td = Some ''long''" by simp
  have h3: "toUpperCase (\<lambda>r. r) ''long''
              \<notin> {''BUY'', ''SELL'', ''HOLD'', ''CLOSE'', ''UPDATE_TPSL''}"
    by (simp add: toUpperCase_actions)
  from C2_unrecognized_action_passed_on
         [OF h1 h2 h3, of STAGE_1 "Num 50" "Num 3000" "\<lambda>c. False" "[]"]
  have "\<exists>d. postProcess (\<lambda>r. r) STAGE_1 (Num 50) (Num 3000) ?raw = Inr d
             \<and> d_action d = ''LONG'' \<and> d_size d = Lit ''0''
             \<and> d_reasoning d = ModelText None []
             \<and> calls (executeActions (\<lambda>c. False) d []) = [ExecuteOrder d]"
    by (auto simp add: toUpperCase_actions)
  with h3 show ?thesis
    by (simp add: Let_def)
qed

text \<open>
  A token spelt with a long s is recognized: with the Unicode tables it becomes SELL,
  and the decision is sized as a SELL.
\<close>

lemma long_s_token_is_SELL:
  assumes "U [CHR 0xC5, CHR 0xBF] = ''S''"
  shows "\<exists>d. postProcess U STAGE_1 (Num 50) (Num 3000)
     \<lparr>raw_trading_decision =
        Some \<lparr>td_action = Some [CHR 0xC5, CHR 0xBF, CHR ''e'', CHR ''l'', CHR ''l''], td_confidence = Some ''100'',
              td_leverage = Some ''20'', td_profit_target = None, td_stop_loss = None\<rparr>,
      raw_reasoning = None, raw_stage_analysis = sa, raw_leverage = None\<rparr> = Inr d
    \<and> d_action d = ''SELL'' \<and> d_size d = ToFixed2 (Num 2.66)"
proof -
  let ?td = "\<lparr>td_action = Some [CHR 0xC5, CHR 0xBF, CHR ''e'', CHR ''l'', CHR ''l''], td_confidence = Some ''100'',
              td_leverage = Some ''20'', td_profit_target = None, td_stop_loss = None\<rparr>"
  let ?raw = "\<lparr>raw_trading_decision = Some ?td, raw_reasoning = None,
               raw_stage_analysis = sa, raw_leverage = None\<rparr>"
  have sz: "sizing STAGE_1 (Num 50) ?td = (Num 40, Num 800)"
    by (simp add: sizing_defs STAGE_1_def parse_defs cmp_defs)
  have nc: "numContracts (Num 800) (Num 3000) = Num 2.66"
    by (simp add: numContracts_def CONTRACT_VAL_ETH_def)
  have "td_action ?td = Some [CHR 0xC5, CHR 0xBF, CHR ''e'', CHR ''l'', CHR ''l'']" by simp
  from postProcess_cases [OF _ this, of ?raw U STAGE_1 "Num 50" "Num 3000"]
  show ?thesis
    by (simp add: toUpperCase_long_s [of U, OF assms] positionValue_def sz nc
        MIN_OPEN_VALUE_def)
qed

section \<open>Updating the stop-loss and take-profit\<close>

lemma parseFloat_str_Nil: "parseFloat_str [] = NaN"
  by (simp add: parseFloat_str_def)

lemma isValid_iff:
  "isValid v = (\<exists>s. v = Some s \<and> \<not> isNaN (parseFloat_str s) \<and> jslt (Num 0) (parseFloat_str s))"
  by (cases v) (auto simp add: isValid_def jsgt_def Let_def parseFloat_str_Nil)

lemma isValid_examples:
  "isValid None = False"
  "isValid (Some '''') = False"
  "isValid (Some ''0'') = False"
  "isValid (Some ''-1'') = False"
  "isValid (Some ''abc'') = False"
  "isValid (Some ''3100'') = True"
  "isValid (Some ''Infinity'') = True"
  by (simp_all add: isValid_def jsgt_def parse_defs)

text \<open>
  The calls of the loop are the calls of its dispatch when the decision has a stage
  analysis that is a string, and none otherwise.
\<close>

lemma calls_executeActions:
  "calls (executeActions exch d positions)
     = (case d_stage_analysis d of
          None \<Rightarrow> []
        | Some sa \<Rightarrow> calls (dispatchActions exch d positions))"
  by (simp add: executeActions_def split: option.split)

text \<open>
  C7, as stated, fails: the warning is logged only when a stop-loss or a take-profit
  is valid. With the stop-loss \<open>0\<close> and an empty take-profit, an \<open>UPDATE_TPSL\<close> on a
  \<open>net\<close> position logs the decision and then does nothing at all: no call and no
  warning.
\<close>

theorem C7_counterexample:
  "dispatchActions (\<lambda>c. True)
     \<lparr>d_stage_analysis = Some ''trend'',
      d_trading_decision =
        \<lparr>td_action = Some ''UPDATE_TPSL'', td_confidence = Some ''80'', td_leverage = Some ''20'',
         td_profit_target = Some '''', td_stop_loss = Some ''0''\<rparr>,
      d_reasoning = ModelText None [], d_action = ''UPDATE_TPSL'', d_size = Lit ''0'',
      d_leverage = Some (ToString (Num 20))\<rparr>
     [\<lparr>instId = ''ETH-USDT-SWAP'', posSide = ''net'', pos = ''1'', upl = ''0.5'',
       uplRatio = ''0.1''\<rparr>]
   = []
   \<and> executeActions (\<lambda>c. True)
     \<lparr>d_stage_analysis = Some ''trend'',
      d_trading_decision =
        \<lparr>td_action = Some ''UPDATE_TPSL'', td_confidence = Some ''80'', td_leverage = Some ''20'',
         td_profit_target = Some '''', td_stop_loss = Some ''0''\<rparr>,
      d_reasoning = ModelText None [], d_action = ''UPDATE_TPSL'', d_size = Lit ''0'',
      d_leverage = Some (ToString (Num 20))\<rparr>
     [\<lparr>instId = ''ETH-USDT-SWAP'', posSide = ''net'', pos = ''1'', upl = ''0.5'',
       uplRatio = ''0.1''\<rparr>]
   = [Log INFO DecisionMade]"
  by (simp add: executeActions_def dispatchActions_def primaryPosition_def INSTRUMENT_ID_def
      updateTPSL_def isValid_examples)

text \<open>
  C7, amended: when the action is \<open>UPDATE_TPSL\<close> and the side of the primary position
  is \<open>net\<close>, the loop makes no exchange call; its dispatch logs the warning, and
  nothing else, exactly when the stop-loss or the take-profit is valid, and does
  nothing otherwise. The loop reaches the dispatch after the log entry of the decision,
  when the decision has a stage analysis that is a string; when it has none, the loop
  fails at that entry and logs an error only.
\<close>

theorem C7_net_mode_no_exchange_call:
  assumes "d_action d = ''UPDATE_TPSL''" and "primaryPosition positions = Some p"
    and "posSide p = ''net''"
  shows "calls (dispatchActions exch d positions) = []
    \<and> dispatchActions exch d positions
        = (if isValid (td_stop_loss (d_trading_decision d))
              \<or> isValid (td_profit_target (d_trading_decision d))
           then [Log WARNING TpslNotSupportedInNetMode] else [])
    \<and> calls (executeActions exch d positions) = []
    \<and> executeActions exch d positions
        = (case d_stage_analysis d of
             None \<Rightarrow> [Log ERROR StrategyFailed]
           | Some sa \<Rightarrow>
               Log INFO DecisionMade
               # (if isValid (td_stop_loss (d_trading_decision d))
                     \<or> isValid (td_profit_target (d_trading_decision d))
                  then [Log WARNING TpslNotSupportedInNetMode] else []))"
proof -
  have a: "dispatchActions exch d positions
        = (if isValid (td_stop_loss (d_trading_decision d))
              \<or> isValid (td_profit_target (d_trading_decision d))
           then [Log WARNING TpslNotSupportedInNetMode] else [])"
    using assms by (simp add: dispatchActions_def updateTPSL_def)
  have b: "calls (dispatchActions exch d positions) = []"
    by (simp add: a)
  have c: "calls (executeActions exch d positions) = []"
    by (simp add: calls_executeActions b split: option.split)
  have e: "executeActions exch d positions
        = (case d_stage_analysis d of
             None \<Rightarrow> [Log ERROR StrategyFailed]
           | Some sa \<Rightarrow>
               Log INFO DecisionMade
               # (if isValid (td_stop_loss (d_trading_decision d))
                     \<or> isValid (td_profit_target (d_trading_decision d))
                  then [Log WARNING TpslNotSupportedInNetMode] else []))"
    by (simp only: executeActions_def a)
  show ?thesis
    by (rule conjI [OF b conjI [OF a conjI [OF c e]]])
qed

theorem C7_net_mode_no_exchange_call_witness:
  "(let d = \<lparr>d_stage_analysis = Some ''trend'',
             d_trading_decision =
               \<lparr>td_action = Some ''UPDATE_TPSL'', td_confidence = Some ''80'',
                td_leverage = Some ''20'', td_profit_target = Some ''3100'',
                td_stop_loss = Some ''0''\<rparr>,
             d_reasoning = ModelText None [], d_action = ''UPDATE_TPSL'', d_size = Lit ''0'',
             d_leverage = Some (ToString (Num 20))\<rparr>;
        p = \<lparr>instId = ''ETH-USDT-SWAP'', posSide = ''net'', pos = ''1'', upl = ''0.5'',
             uplRatio = ''0.1''\<rparr>
    in d_action d = ''UPDATE_TPSL'' \<and> primaryPosition [p] = Some p \<and> posSide p = ''net''
       \<and> calls (dispatchActions (\<lambda>c. True) d [p]) = []
       \<and> dispatchActions (\<lambda>c. True) d [p] = [Log WARNING TpslNotSupportedInNetMode]
       \<and> calls (executeActions (\<lambda>c. True) d [p]) = []
       \<and> executeActions (\<lambda>c. True) d [p]
           = [Log INFO DecisionMade, Log WARNING TpslNotSupportedInNetMode])"
proof -
  let ?d = "\<lparr>d_stage_analysis = Some ''trend'',
             d_trading_decision =
               \<lparr>td_action = Some ''UPDATE_TPSL'', td_confidence = Some ''80'',
                td_leverage = Some ''20'', td_profit_target = Some ''3100'',
                td_stop_loss = Some ''0''\<rparr>,
             d_reasoning = ModelText None [], d_action = ''UPDATE_TPSL'', d_size = Lit ''0'',
             d_leverage = Some (ToString (Num 20))\<rparr>"
  let ?p = "\<lparr>instId = ''ETH-USDT-SWAP'', posSide = ''net'', pos = ''1'', upl = ''0.5'',
             uplRatio = ''0.1''\<rparr>"
  have h1: "d_action ?d = ''UPDATE_TPSL''" by simp
  have h2: "primaryPosition [?p] = Some ?p"
    by (simp add: primaryPosition_def INSTRUMENT_ID_def)
  have h3: "posSide ?p = ''net''" by simp
  from C7_net_mode_no_exchange_call [OF h1 h2 h3, of "\<lambda>c. True"] h2
  show ?thesis
    by (simp add: Let_def isValid_examples)
qed

text \<open>
  C8, as stated, fails: validity asks for a number that is not \<open>NaN\<close> and is greater
  than 0, not for a finite one. The stop-loss \<open>Infinity\<close> parses to \<open>Infinity\<close>, is
  valid, and is forwarded to the exchange.
\<close>

theorem C8_counterexample:
  "parseFloat_str ''Infinity'' = PInf
   \<and> isValid (Some ''Infinity'') = True
   \<and> calls (executeActions (\<lambda>c. True)
       \<lparr>d_stage_analysis = Some ''trend'',
        d_trading_decision =
          \<lparr>td_action = Some ''UPDATE_TPSL'', td_confidence = Some ''80'',
           td_leverage = Some ''20'', td_profit_target = None,
           td_stop_loss = Some ''Infinity''\<rparr>,
        d_reasoning = ModelText None [], d_action = ''UPDATE_TPSL'', d_size = Lit ''0'',
        d_leverage = Some (ToString (Num 20))\<rparr>
       [\<lparr>instId = ''ETH-USDT-SWAP'', posSide = ''long'', pos = ''1'', upl = ''0.5'',
         uplRatio = ''0.1''\<rparr>])
     = [UpdatePositionTPSL ''ETH-USDT-SWAP'' ''long'' ''1'' (Some ''Infinity'') None]"
  by (simp add: executeActions_def dispatchActions_def primaryPosition_def INSTRUMENT_ID_def
      updateTPSL_def isValid_examples Let_def) (simp add: parse_defs)

text \<open>
  C8, amended: in the handling of \<open>UPDATE_TPSL\<close>, a stop-loss or take-profit that is
  absent, empty, \<open>0\<close>, or parses to \<open>NaN\<close> or to a number that is not greater
  than 0 is not valid, and a value that is not valid is never forwarded: the only exchange
  call is \<open>updatePositionTPSL\<close> for a position that is not \<open>net\<close>, with each of the two
  values passed when it is valid and left out otherwise; when neither is valid there
  is no call. The loop makes the calls of its dispatch, or none.
\<close>

theorem C8_invalid_values_not_forwarded:
  assumes "d_action d = ''UPDATE_TPSL''"
  shows "isValid None = False \<and> isValid (Some '''') = False \<and> isValid (Some ''0'') = False
    \<and> (\<forall>v. isValid v
          = (\<exists>s. v = Some s \<and> \<not> isNaN (parseFloat_str s) \<and> jslt (Num 0) (parseFloat_str s)))
    \<and> calls (dispatchActions exch d positions)
        = (let newSL = td_stop_loss (d_trading_decision d);
               newTP = td_profit_target (d_trading_decision d)
           in case primaryPosition positions of
                None \<Rightarrow> []
              | Some p \<Rightarrow>
                  if (isValid newSL \<or> isValid newTP) \<and> posSide p \<noteq> ''net''
                  then [UpdatePositionTPSL INSTRUMENT_ID (posSide p) (pos p)
                          (if isValid newSL then newSL else None)
                          (if isValid newTP then newTP else None)]
                  else [])
    \<and> calls (executeActions exch d positions)
        = (case d_stage_analysis d of
             None \<Rightarrow> []
           | Some sa \<Rightarrow> calls (dispatchActions exch d positions))"
proof -
  have c: "calls (dispatchActions exch d positions)
        = (let newSL = td_stop_loss (d_trading_decision d);
               newTP = td_profit_target (d_trading_decision d)
           in case primaryPosition positions of
                None \<Rightarrow> []
              | Some p \<Rightarrow>
                  if (isValid newSL \<or> isValid newTP) \<and> posSide p \<noteq> ''net''
                  then [UpdatePositionTPSL INSTRUMENT_ID (posSide p) (pos p)
                          (if isValid newSL then newSL else None)
                          (if isValid newTP then newTP else None)]
                  else [])"
    using assms
    by (cases "primaryPosition positions")
       (simp_all add: dispatchActions_def updateTPSL_def Let_def)
  have v: "\<forall>v. isValid v
          = (\<exists>s. v = Some s \<and> \<not> isNaN (parseFloat_str s) \<and> jslt (Num 0) (parseFloat_str s))"
    using isValid_iff by blast
  show ?thesis
    by (rule conjI [OF isValid_examples(1) conjI [OF isValid_examples(2)
          conjI [OF isValid_examples(3) conjI [OF v conjI [OF c calls_executeActions]]]]])
qed

theorem C8_invalid_values_not_forwarded_witness:
  "(let d = \<lparr>d_stage_analysis = Some ''trend'',
             d_trading_decision =
               \<lparr>td_action = Some ''UPDATE_TPSL'', td_confidence = Some ''80'',
                td_leverage = Some ''20'', td_profit_target = Some ''3100'',
                td_stop_loss = Some ''0''\<rparr>,
             d_reasoning = ModelText None [], d_action = ''UPDATE_TPSL'', d_size = Lit ''0'',
             d_leverage = Some (ToString (Num 20))\<rparr>;
        p = \<lparr>instId = ''ETH-USDT-SWAP'', posSide = ''long'', pos = ''1'', upl = ''0.5'',
             uplRatio = ''0.1''\<rparr>
    in d_action d = ''UPDATE_TPSL''
       \<and> calls (dispatchActions (\<lambda>c. True) d [p])
           = [UpdatePositionTPSL ''ETH-USDT-SWAP'' ''long'' ''1'' None (Some ''3100'')]
       \<and> calls (dispatchActions (\<lambda>c. True)
                  (d\<lparr>d_trading_decision := (d_trading_decision d)\<lparr>td_profit_target := None\<rparr>\<rparr>) [p])
           = []
       \<and> calls (executeActions (\<lambda>c. True) d [p])
           = [UpdatePositionTPSL ''ETH-USDT-SWAP'' ''long'' ''1'' None (Some ''3100'')])"
proof -
  let ?d = "\<lparr>d_stage_analysis = Some ''trend'',
             d_trading_decision =
               \<lparr>td_action = Some ''UPDATE_TPSL'', td_confidence = Some ''80'',
                td_leverage = Some ''20'', td_profit_target = Some ''3100'',
                td_stop_loss = Some ''0''\<rparr>,
             d_reasoning = ModelText None [], d_action = ''UPDATE_TPSL'', d_size = Lit ''0'',
             d_leverage = Some (ToString (Num 20))\<rparr>"
  let ?d' = "?d\<lparr>d_trading_decision := (d_trading_decision ?d)\<lparr>td_profit_target := None\<rparr>\<rparr>"
  let ?p = "\<lparr>instId = ''ETH-USDT-SWAP'', posSide = ''long'', pos = ''1'', upl = ''0.5'',
             uplRatio = ''0.1''\<rparr>"
  have h: "d_action ?d = ''UPDATE_TPSL''" by simp
  have h': "d_action ?d' = ''UPDATE_TPSL''" by simp
  have pp: "primaryPosition [?p] = Some ?p"
    by (simp add: primaryPosition_def INSTRUMENT_ID_def)
  note c4 = conjunct2 [THEN conjunct2, THEN conjunct2, THEN conjunct2]
  from C8_invalid_values_not_forwarded [OF h, of "\<lambda>c. True" "[?p]", THEN c4]
    C8_invalid_values_not_forwarded [OF h', of "\<lambda>c. True" "[?p]", THEN c4]
  show ?thesis
    by (simp add: Let_def pp isValid_examples INSTRUMENT_ID_def)
qed

section \<open>The relative strength index\<close>

lemma elt_map_Num: "i < length xs \<Longrightarrow> elt (map Num xs) i = Num (xs ! i)"
  by (simp add: elt_def)

lemma length_deltas: "length (deltas xs) = length xs - 1"
  by (simp add: deltas_def)

lemma nth_deltas: "Suc k < length xs \<Longrightarrow> deltas xs ! k = xs ! Suc k - xs ! k"
  by (simp add: deltas_def nth_tl)

lemma gain_of_nonneg: "0 \<le> gain_of d"
  by (simp add: gain_of_def)

lemma loss_of_nonneg: "0 \<le> loss_of d"
  by (simp add: loss_of_def)

lemma rsi_sums_step:
  assumes "k < period" and "Suc k < length xs"
  shows "rsi_sums (map Num xs) period (Suc k) (Num g, Num l)
       = rsi_sums (map Num xs) period (Suc (Suc k))
           (Num (g + gain_of (deltas xs ! k)), Num (l + loss_of (deltas xs ! k)))"
proof -
  have le: "Suc k \<le> period" using assms(1) by simp
  have k: "k < length xs" using assms(2) by simp
  show ?thesis
    by (subst rsi_sums.simps)
       (simp add: le elt_map_Num k assms(2) nth_deltas jssub_def jsgt_def gain_of_def
         loss_of_def Let_def)
qed

lemma rsi_sums_sum:
  assumes "period < length xs" and "k \<le> period"
  shows "rsi_sums (map Num xs) period (Suc k) (Num g, Num l)
       = (Num (g + sum_list (map gain_of (drop k (take period (deltas xs))))),
          Num (l + sum_list (map loss_of (drop k (take period (deltas xs))))))"
  using assms(2)
proof (induction "period - k" arbitrary: k g l)
  case 0
  then have "k = period" by simp
  then show ?case
    by (subst rsi_sums.simps) simp
next
  case (Suc n)
  then have k: "k < period" and n: "n = period - Suc k" by simp_all
  have klen: "Suc k < length xs" using k assms(1) by simp
  have kd: "k < length (take period (deltas xs))"
    using k assms(1) by (simp add: length_deltas)
  have dr: "drop k (take period (deltas xs))
          = deltas xs ! k # drop (Suc k) (take period (deltas xs))"
    using Cons_nth_drop_Suc [OF kd] k by simp
  have "rsi_sums (map Num xs) period (Suc k) (Num g, Num l)
       = rsi_sums (map Num xs) period (Suc (Suc k))
           (Num (g + gain_of (deltas xs ! k)), Num (l + loss_of (deltas xs ! k)))"
    by (rule rsi_sums_step [OF k klen])
  also have "\<dots> = (Num (g + gain_of (deltas xs ! k)
                         + sum_list (map gain_of (drop (Suc k) (take period (deltas xs))))),
                    Num (l + loss_of (deltas xs ! k)
                         + sum_list (map loss_of (drop (Suc k) (take period (deltas xs))))))"
    using Suc.hyps(1) [OF n] k by simp
  finally show ?case
    by (simp add: dr add.assoc)
qed

lemma rsi_smooth_step:
  assumes "Suc k < length xs" and "0 < period"
  shows "rsi_smooth (map Num xs) period (Suc k) (Num a, Num b)
       = rsi_smooth (map Num xs) period (Suc (Suc k))
           (Num (fst (wilder period (a, b) (deltas xs ! k))),
            Num (snd (wilder period (a, b) (deltas xs ! k))))"
proof -
  have k: "k < length xs" using assms(1) by simp
  show ?thesis
    using assms(2)
    by (subst rsi_smooth.simps)
       (simp add: elt_map_Num k assms(1) nth_deltas jssub_def jsgt_def wilder_def gain_of_def
         loss_of_def Let_def)
qed

lemma rsi_smooth_foldl:
  assumes "0 < period" and "k \<le> length xs - 1"
  shows "rsi_smooth (map Num xs) period (Suc k) (Num a, Num b)
       = (Num (fst (foldl (wilder period) (a, b) (drop k (deltas xs)))),
          Num (snd (foldl (wilder period) (a, b) (drop k (deltas xs)))))"
  using assms(2)
proof (induction "length xs - 1 - k" arbitrary: k a b)
  case 0
  then have "\<not> Suc k < length (map Num xs)" by simp
  moreover have "drop k (deltas xs) = []" using 0 by (simp add: length_deltas)
  ultimately show ?case
    by (subst rsi_smooth.simps) (simp del: length_map)
next
  case (Suc n)
  then have klen: "Suc k < length xs" and n: "n = length xs - 1 - Suc k" by simp_all
  have kd: "k < length (deltas xs)" using klen by (simp add: length_deltas)
  have dr: "drop k (deltas xs) = deltas xs ! k # drop (Suc k) (deltas xs)"
    using Cons_nth_drop_Suc [OF kd] by simp
  have le: "Suc k \<le> length xs - 1" using klen by simp
  show ?case
    by (simp only: rsi_smooth_step [OF klen assms(1)] Suc.hyps(1) [OF n le] dr foldl_Cons
        prod.collapse)
qed

lemma wilder_nonneg:
  assumes "0 < period" and "0 \<le> fst avg" and "0 \<le> snd avg"
  shows "0 \<le> fst (wilder period avg d) \<and> 0 \<le> snd (wilder period avg d)"
proof -
  have "0 \<le> real period - 1" using assms(1) by simp
  then show ?thesis
    using assms(2,3) gain_of_nonneg [of d] loss_of_nonneg [of d]
    by (simp add: wilder_def)
qed

lemma foldl_wilder_nonneg:
  assumes "0 < period"
  shows "0 \<le> fst avg \<Longrightarrow> 0 \<le> snd avg
     \<Longrightarrow> 0 \<le> fst (foldl (wilder period) avg ds) \<and> 0 \<le> snd (foldl (wilder period) avg ds)"
proof (induction ds arbitrary: avg)
  case Nil
  then show ?case by simp
next
  case (Cons d ds)
  from wilder_nonneg [OF assms Cons.prems] Cons.IH show ?case by simp
qed

lemma sum_list_gain_nonneg: "0 \<le> sum_list (map gain_of ds)"
  by (rule sum_list_nonneg) (auto simp add: gain_of_nonneg)

lemma sum_list_loss_nonneg: "0 \<le> sum_list (map loss_of ds)"
  by (rule sum_list_nonneg) (auto simp add: loss_of_nonneg)

lemma rsi_of_Num:
  assumes "0 \<le> a" and "0 \<le> b"
  shows "rsi_of (Num a) (Num b) = Num (if b = 0 then 100 else 100 - 100 / (1 + a / b))"
proof (cases "b = 0")
  case True
  then show ?thesis by (simp add: rsi_of_def jseq_def)
next
  case False
  with assms have "0 \<le> a / b" by simp
  then have "1 + a / b \<noteq> 0" by linarith
  with False show ?thesis
    by (simp add: rsi_of_def jseq_def jssub_def Let_def)
qed

text \<open>
  The version of \<open>calcRSI\<close> with the smoothing loop computes the RSI of the
  specification, on every series of finite closes and for every period but 0.
\<close>

lemma calcRSI_smoothed_refines_reference:
  assumes "0 < period"
  shows "calcRSI_smoothed (map Num closes) period = Num (rsi_reference closes period)"
proof (cases "length closes < period + 1")
  case True
  then show ?thesis by (simp add: calcRSI_smoothed_def rsi_reference_def)
next
  case False
  then have len: "period < length closes" by simp
  let ?ds = "deltas closes"
  let ?g0 = "sum_list (map gain_of (take period ?ds)) / real period"
  let ?l0 = "sum_list (map loss_of (take period ?ds)) / real period"
  let ?avg = "foldl (wilder period) (?g0, ?l0) (drop period ?ds)"
  have p: "real period \<noteq> 0" using assms by simp
  have sums: "rsi_sums (map Num closes) period (Suc 0) (Num 0, Num 0)
            = (Num (sum_list (map gain_of (take period ?ds))),
               Num (sum_list (map loss_of (take period ?ds))))"
    using rsi_sums_sum [OF len, of 0 0 0] by simp
  have ple: "period \<le> length closes - 1" using len by simp
  have smooth: "rsi_smooth (map Num closes) period (Suc period) (Num ?g0, Num ?l0)
              = (Num (fst ?avg), Num (snd ?avg))"
    using rsi_smooth_foldl [OF assms ple] by simp
  have g0: "0 \<le> ?g0" and l0: "0 \<le> ?l0"
    using sum_list_gain_nonneg sum_list_loss_nonneg by simp_all
  have nn: "0 \<le> fst ?avg \<and> 0 \<le> snd ?avg"
    using foldl_wilder_nonneg [OF assms, of "(?g0, ?l0)"] g0 l0 by simp
  have "calcRSI_smoothed (map Num closes) period = rsi_of (Num (fst ?avg)) (Num (snd ?avg))"
    using False assms by (simp add: calcRSI_smoothed_def sums smooth)
  also have "\<dots> = Num (if snd ?avg = 0 then 100 else 100 - 100 / (1 + fst ?avg / snd ?avg))"
    using nn by (simp add: rsi_of_Num)
  also have "\<dots> = Num (rsi_reference closes period)"
    using False by (simp add: rsi_reference_def Let_def)
  finally show ?thesis .
qed

text \<open>
  \<open>calcRSI\<close> of services/aiService.ts has no smoothing loop: it computes the RSI of
  the specification of the first \<open>period + 1\<close> closes, and ignores the rest of the
  series.
\<close>

lemma deltas_take: "deltas (take (Suc n) xs) = take n (deltas xs)"
proof (induction xs arbitrary: n)
  case Nil
  then show ?case by (simp add: deltas_def)
next
  case (Cons x xs)
  show ?case
  proof (cases n)
    case 0
    then show ?thesis by (simp add: deltas_def)
  next
    case (Suc m)
    with Cons.IH [of m] show ?thesis
      by (cases xs) (simp_all add: deltas_def)
  qed
qed

lemma calcRSI_reference_of_prefix:
  assumes "0 < period"
  shows "calcRSI (map Num closes) period = Num (rsi_reference (take (Suc period) closes) period)"
proof (cases "length closes < period + 1")
  case True
  then show ?thesis by (simp add: calcRSI_def rsi_reference_def)
next
  case False
  then have len: "period < length closes" by simp
  let ?ds = "deltas closes"
  let ?g0 = "sum_list (map gain_of (take period ?ds)) / real period"
  let ?l0 = "sum_list (map loss_of (take period ?ds)) / real period"
  have sums: "rsi_sums (map Num closes) period (Suc 0) (Num 0, Num 0)
            = (Num (sum_list (map gain_of (take period ?ds))),
               Num (sum_list (map loss_of (take period ?ds))))"
    using rsi_sums_sum [OF len, of 0 0 0] by simp
  have g0: "0 \<le> ?g0" and l0: "0 \<le> ?l0"
    using sum_list_gain_nonneg sum_list_loss_nonneg by simp_all
  have "calcRSI (map Num closes) period = rsi_of (Num ?g0) (Num ?l0)"
    using False assms by (simp add: calcRSI_def sums)
  also have "\<dots> = Num (if ?l0 = 0 then 100 else 100 - 100 / (1 + ?g0 / ?l0))"
    using g0 l0 by (rule rsi_of_Num)
  also have "\<dots> = Num (rsi_reference (take (Suc period) closes) period)"
    using len by (auto simp add: rsi_reference_def Let_def deltas_take length_deltas min_def)
  finally show ?thesis .
qed

text \<open>
  C6. The claim holds of the version with the smoothing loop and fails of \<open>calcRSI\<close>
  of services/aiService.ts, the file the server imports, where \<open>getTradingDecision\<close>
  calls it with the period 7.
  On nine closes that rise seven times and then fall once, \<open>calcRSI\<close> returns 100,
  the value after the first seven deltas; the RSI of the specification, and of the
  version with the smoothing loop, is 600 / 7.
\<close>

theorem C6_rsi_without_smoothing:
  "calcRSI (map Num [1, 2, 3, 4, 5, 6, 7, 8, 7]) 7 = Num 100
   \<and> rsi_reference [1, 2, 3, 4, 5, 6, 7, 8, 7] 7 = 600 / 7
   \<and> calcRSI_smoothed (map Num [1, 2, 3, 4, 5, 6, 7, 8, 7]) 7 = Num (600 / 7)"
proof -
  have a: "calcRSI (map Num [1, 2, 3, 4, 5, 6, 7, 8, 7]) 7 = Num 100"
    by (simp add: calcRSI_def rsi_sums.simps elt_def jssub_def jsgt_def rsi_of_def jseq_def)
  have b: "rsi_reference [1, 2, 3, 4, 5, 6, 7, 8, 7] 7 = 600 / 7"
    by (simp add: rsi_reference_def deltas_def gain_of_def loss_of_def wilder_def)
  have c: "calcRSI_smoothed (map Num [1, 2, 3, 4, 5, 6, 7, 8, 7]) 7 = Num (600 / 7)"
    using calcRSI_smoothed_refines_reference [of 7 "[1, 2, 3, 4, 5, 6, 7, 8, 7]"] b by simp
  from a b c show ?thesis by (simp only: simp_thms)
qed

section \<open>Indicators on short series\<close>

lemma calcEMA_undefined_iff: "calcEMA prices period = None \<longleftrightarrow> prices = []"
  by (cases prices) (simp_all add: calcEMA_def Let_def)

lemma indicators_empty_series:
  "calcRSI [] period = Num 50"
  "calcRSI_smoothed [] period = Num 50"
  "calcMACD [] = \<lparr>macd = Num 0, signal = Num 0, hist = Num 0\<rparr>"
  "0 < period \<Longrightarrow> calcSMA [] period = Num 0"
  by (simp_all add: calcRSI_def calcRSI_smoothed_def calcMACD_def calcSMA_def)

text \<open>
  C9. \<open>calcEMA\<close> is not defined on the empty series: for any period but 0 the series
  is shorter than the period and the result is \<open>prices[-1]\<close>, which is \<open>undefined\<close>.
  \<open>getTradingDecision\<close> of services/aiService.ts calls it with the periods 20 and
  50 on the closes of the candles, with no check of their number. \<open>calcRSI\<close>,
  \<open>calcMACD\<close> and \<open>calcSMA\<close> return their neutral value on the empty series, and
  \<open>calcEMA\<close> returns an element of the series or a number computed from it on every
  other series.
\<close>

theorem C9_calcEMA_empty_series_undefined:
  "calcEMA [] 20 = None \<and> calcEMA [] 50 = None"
  by (simp add: calcEMA_def)

end
